theory Spec2Isabelle
  imports Main
begin

section \<open>The document tree\<close>

text \<open>
  The validators read a tree of \<open>yaml.Node\<close> values produced by the YAML parser. Only
  the fields the validators read are kept: the kind tag, the scalar text, the source line
  and the children. A mapping node stores its keys and values alternately in \<open>Content\<close>.
\<close>

datatype Kind = ZeroKind | DocumentNode | SequenceNode | MappingNode | ScalarNode | AliasNode

datatype Node = Node (Kind: Kind) (Value: string) (Line: int) (Content: "Node list")

section \<open>Library functions used by the validators\<close>

subsection \<open>Decimal rendering of the \<open>%d\<close> verb\<close>

definition digit_char :: "nat \<Rightarrow> char" where
  "digit_char d = ''0123456789'' ! d"

fun digits10 :: "nat \<Rightarrow> string" where
  "digits10 n = (if n < 10 then [digit_char n] else digits10 (n div 10) @ [digit_char (n mod 10)])"

declare digits10.simps [simp del]

definition itoa :: "int \<Rightarrow> string" where
  "itoa i = (if i < 0 then CHR ''-'' # digits10 (nat (- i)) else digits10 (nat i))"

text \<open>The verb \<open>'%s'\<close>: the argument between two apostrophes.\<close>

definition quoted :: "string \<Rightarrow> string" where
  "quoted s = [CHR 0x27] @ s @ [CHR 0x27]"

subsection \<open>\<open>strconv.Atoi\<close>\<close>

text \<open>
  \<open>strconv.Atoi\<close> reads an optional sign followed by one or more decimal digits into a
  64-bit \<open>int\<close>. It returns a value and an error: a syntax error comes with the value 0,
  a range error with the nearest representable value. A text of fewer than 19 bytes is read
  by a loop that cannot overflow; any other text goes to \<open>ParseInt\<close>, which reads the digits
  with \<open>ParseUint\<close> into an unsigned 64-bit accumulator and then applies the sign.
  \<open>ParseUint\<close> reads from left to right and returns at the first byte it cannot accept:
  a byte that is no digit is a syntax error, a digit that would take the accumulator past
  \<open>2^64 - 1\<close> is a range error, whatever follows it.
\<close>

datatype NumError = ErrSyntax | ErrRange

definition is_digit :: "char \<Rightarrow> bool" where
  "is_digit c = (48 \<le> (of_char c :: nat) \<and> (of_char c :: nat) \<le> 57)"

definition digit_val :: "char \<Rightarrow> nat" where
  "digit_val c = of_char c - 48"

definition maxUint64 :: nat where
  "maxUint64 = 2 ^ 64 - 1"

definition maxInt :: int where
  "maxInt = 2 ^ 63 - 1"

definition minInt :: int where
  "minInt = - (2 ^ 63)"

fun ParseUint_loop :: "string \<Rightarrow> nat \<Rightarrow> nat \<times> NumError option" where
  "ParseUint_loop [] n = (n, None)"
| "ParseUint_loop (c # cs) n =
     (if \<not> is_digit c then (0, Some ErrSyntax)
      else if maxUint64 div 10 + 1 \<le> n then (maxUint64, Some ErrRange)
      else if maxUint64 < n * 10 + digit_val c then (maxUint64, Some ErrRange)
      else ParseUint_loop cs (n * 10 + digit_val c))"

definition ParseUint :: "string \<Rightarrow> nat \<times> NumError option" where
  "ParseUint s = (if s = [] then (0, Some ErrSyntax) else ParseUint_loop s 0)"

definition ParseInt :: "string \<Rightarrow> int \<times> NumError option" where
  "ParseInt s =
     (case s of
        [] \<Rightarrow> (0, Some ErrSyntax)
      | c # cs \<Rightarrow>
          (let neg = (c = CHR ''-'');
               ds = (if c = CHR ''+'' \<or> c = CHR ''-'' then cs else s);
               (un, err) = ParseUint ds
           in if err = Some ErrSyntax then (0, Some ErrSyntax)
              else if \<not> neg \<and> 2 ^ 63 \<le> un then (maxInt, Some ErrRange)
              else if neg \<and> 2 ^ 63 < un then (minInt, Some ErrRange)
              else (if neg then - int un else int un, None)))"

fun Atoi_loop :: "string \<Rightarrow> int \<Rightarrow> int \<times> NumError option" where
  "Atoi_loop [] n = (n, None)"
| "Atoi_loop (ch # rest) n =
     (if \<not> is_digit ch then (0, Some ErrSyntax)
      else Atoi_loop rest (n * 10 + int (digit_val ch)))"

definition Atoi :: "string \<Rightarrow> int \<times> NumError option" where
  "Atoi s =
     (case s of
        [] \<Rightarrow> ParseInt s
      | c # cs \<Rightarrow>
          if length s < 19 then
            (let ds = (if c = CHR ''-'' \<or> c = CHR ''+'' then cs else s)
             in if length ds < 1 then (0, Some ErrSyntax)
                else (case Atoi_loop ds 0 of
                        (n, Some e) \<Rightarrow> (0, Some e)
                      | (n, None) \<Rightarrow> (if c = CHR ''-'' then - n else n, None)))
          else ParseInt s)"

subsection \<open>Regular expressions\<close>

text \<open>
  The patterns of the validators use character classes, concatenation, alternation,
  \<open>+\<close> and \<open>*\<close>, and are anchored at both ends, so that \<open>MatchString\<close> decides whether
  the whole text belongs to the pattern. A class is a list of inclusive ranges.
\<close>

datatype rexp =
    Empty
  | Eps
  | Class "(char \<times> char) list"
  | Alt rexp rexp
  | Seq rexp rexp
  | Star rexp

definition in_class :: "(char \<times> char) list \<Rightarrow> char \<Rightarrow> bool" where
  "in_class rs c =
     list_ex (\<lambda>(lo, hi). (of_char lo :: nat) \<le> of_char c \<and> (of_char c :: nat) \<le> of_char hi) rs"

fun nullable :: "rexp \<Rightarrow> bool" where
  "nullable Empty = False"
| "nullable Eps = True"
| "nullable (Class rs) = False"
| "nullable (Alt r s) = (nullable r \<or> nullable s)"
| "nullable (Seq r s) = (nullable r \<and> nullable s)"
| "nullable (Star r) = True"

fun deriv :: "char \<Rightarrow> rexp \<Rightarrow> rexp" where
  "deriv c Empty = Empty"
| "deriv c Eps = Empty"
| "deriv c (Class rs) = (if in_class rs c then Eps else Empty)"
| "deriv c (Alt r s) = Alt (deriv c r) (deriv c s)"
| "deriv c (Seq r s) =
     (if nullable r then Alt (Seq (deriv c r) s) (deriv c s) else Seq (deriv c r) s)"
| "deriv c (Star r) = Seq (deriv c r) (Star r)"

fun derivs :: "string \<Rightarrow> rexp \<Rightarrow> rexp" where
  "derivs [] r = r"
| "derivs (c # cs) r = derivs cs (deriv c r)"

definition MatchString :: "rexp \<Rightarrow> string \<Rightarrow> bool" where
  "MatchString r s = nullable (derivs s r)"

definition Chr :: "char \<Rightarrow> rexp" where
  "Chr c = Class [(c, c)]"

definition Plus :: "rexp \<Rightarrow> rexp" where
  "Plus r = Seq r (Star r)"

fun Lit :: "string \<Rightarrow> rexp" where
  "Lit [] = Eps"
| "Lit (c # cs) = Seq (Chr c) (Lit cs)"

text \<open>\<open>^[a-z]+(_[a-z]+)*$\<close>\<close>

definition lower :: rexp where
  "lower = Class [(CHR ''a'', CHR ''z'')]"

definition snakeCaseRegex :: rexp where
  "snakeCaseRegex = Seq (Plus lower) (Star (Seq (Chr CHR ''_'') (Plus lower)))"

text \<open>\<open>^registry\.bigbrother\.io/[a-zA-Z0-9][a-zA-Z0-9_.-]+:[a-zA-Z0-9_.-]+$\<close>\<close>

definition alnum :: "(char \<times> char) list" where
  "alnum = [(CHR ''a'', CHR ''z''), (CHR ''A'', CHR ''Z''), (CHR ''0'', CHR ''9'')]"

definition word_chars :: "(char \<times> char) list" where
  "word_chars = alnum @ [(CHR ''_'', CHR ''_''), (CHR ''.'', CHR ''.''), (CHR ''-'', CHR ''-'')]"

definition imageRegex :: rexp where
  "imageRegex =
     Seq (Lit ''registry.bigbrother.io/'')
       (Seq (Class alnum)
         (Seq (Plus (Class word_chars))
           (Seq (Chr CHR '':'') (Plus (Class word_chars)))))"

text \<open>\<open>^\d+(Gi|Mi|Ki)$\<close>\<close>

definition memoryRegex :: rexp where
  "memoryRegex =
     Seq (Plus (Class [(CHR ''0'', CHR ''9'')])) (Alt (Lit ''Gi'') (Alt (Lit ''Mi'') (Lit ''Ki'')))"

section \<open>The validator with its own error list\<close>

text \<open>
  A \<open>Validator\<close> owns the file name and the list of rendered diagnostics. Every method
  of the source mutates the validator it is called on; here each takes the validator and
  returns the updated one. Reading \<open>Content[i+1]\<close> of a mapping node with an odd number
  of children panics: that is the result \<open>None\<close>.
\<close>

record Validator =
  filename :: string
  errors :: "string list"

definition NewValidator :: "string \<Rightarrow> Validator" where
  "NewValidator fname = \<lparr>filename = fname, errors = []\<rparr>"

text \<open>\<open>Errorf\<close> receives the message already formatted.\<close>

definition Errorf :: "int \<Rightarrow> string \<Rightarrow> Validator \<Rightarrow> Validator" where
  "Errorf line msg v =
     (if line > 0 then v\<lparr>errors := errors v @ [filename v @ '':'' @ itoa line @ '' '' @ msg]\<rparr>
      else v\<lparr>errors := errors v @ [filename v @ '' '' @ msg]\<rparr>)"

subsection \<open>Scalar fields\<close>

definition validateAPIVersion :: "Node \<Rightarrow> Validator \<Rightarrow> Validator" where
  "validateAPIVersion node v =
     (if Kind node \<noteq> ScalarNode then Errorf (Line node) ''apiVersion must be string'' v
      else if Value node \<noteq> ''v1''
        then Errorf (Line node) (''apiVersion has unsupported value '' @ quoted (Value node)) v
      else v)"

definition validateKind :: "Node \<Rightarrow> Validator \<Rightarrow> Validator" where
  "validateKind node v =
     (if Kind node \<noteq> ScalarNode then Errorf (Line node) ''kind must be string'' v
      else if Value node \<noteq> ''Pod''
        then Errorf (Line node) (''kind has unsupported value '' @ quoted (Value node)) v
      else v)"

definition validateName :: "Node \<Rightarrow> Validator \<Rightarrow> Validator" where
  "validateName node v =
     (if Kind node \<noteq> ScalarNode then Errorf (Line node) ''name must be string'' v
      else if Value node = [] then Errorf (Line node) ''name is required'' v
      else v)"

definition validateOS :: "Node \<Rightarrow> Validator \<Rightarrow> Validator" where
  "validateOS node v =
     (if Kind node \<noteq> ScalarNode then Errorf (Line node) ''os must be string'' v
      else if Value node \<noteq> ''linux'' \<and> Value node \<noteq> ''windows''
        then Errorf (Line node) (''os has unsupported value '' @ quoted (Value node)) v
      else v)"

definition validateImage :: "Node \<Rightarrow> Validator \<Rightarrow> Validator" where
  "validateImage node v =
     (if Kind node \<noteq> ScalarNode then Errorf (Line node) ''image must be string'' v
      else if \<not> MatchString imageRegex (Value node)
        then Errorf (Line node) (''image has invalid format '' @ quoted (Value node)) v
      else v)"

definition validateCPU :: "Node \<Rightarrow> Validator \<Rightarrow> Validator" where
  "validateCPU node v =
     (if Kind node \<noteq> ScalarNode then Errorf (Line node) ''cpu must be integer'' v
      else if snd (Atoi (Value node)) \<noteq> None then Errorf (Line node) ''cpu must be int'' v
      else v)"

definition validateMemory :: "Node \<Rightarrow> string \<Rightarrow> Validator \<Rightarrow> Validator" where
  "validateMemory node prefix v =
     (if Kind node \<noteq> ScalarNode then Errorf (Line node) (prefix @ ''.memory must be string'') v
      else if \<not> MatchString memoryRegex (Value node)
        then Errorf (Line node) (prefix @ ''.memory has invalid format '' @ quoted (Value node)) v
      else v)"

definition validateContainerPort :: "Node \<Rightarrow> Validator \<Rightarrow> Validator" where
  "validateContainerPort node v =
     (if Kind node \<noteq> ScalarNode then Errorf (Line node) ''containerPort must be integer'' v
      else (case Atoi (Value node) of
              (port, Some err) \<Rightarrow> Errorf (Line node) ''containerPort must be integer'' v
            | (port, None) \<Rightarrow>
                if port \<le> 0 \<or> port \<ge> 65536
                then Errorf (Line node) ''containerPort value out of range'' v
                else v))"

definition validateProtocol :: "Node \<Rightarrow> Validator \<Rightarrow> Validator" where
  "validateProtocol node v =
     (if Kind node \<noteq> ScalarNode then Errorf (Line node) ''protocol must be string'' v
      else if Value node \<noteq> ''TCP'' \<and> Value node \<noteq> ''UDP''
        then Errorf (Line node) (''protocol has unsupported value '' @ quoted (Value node)) v
      else v)"

definition validatePath :: "Node \<Rightarrow> Validator \<Rightarrow> Validator" where
  "validatePath node v =
     (if Kind node \<noteq> ScalarNode then Errorf (Line node) ''path must be string'' v
      else if length (Value node) = 0 \<or> Value node ! 0 \<noteq> CHR ''/''
        then Errorf (Line node) ''path must be absolute path'' v
      else v)"

definition validateProbePort :: "Node \<Rightarrow> Validator \<Rightarrow> Validator" where
  "validateProbePort node v =
     (if Kind node \<noteq> ScalarNode then Errorf (Line node) ''port must be integer'' v
      else (case Atoi (Value node) of
              (port, Some err) \<Rightarrow> Errorf (Line node) ''port must be integer'' v
            | (port, None) \<Rightarrow>
                if port \<le> 0 \<or> port \<ge> 65536
                then Errorf (Line node) ''port value out of range'' v
                else v))"

text \<open>
  The names seen so far in one \<open>containers\<close> sequence: a Go \<open>map[string]bool\<close>, read
  as \<open>false\<close> where the key is absent.
\<close>

type_synonym names = "string \<rightharpoonup> bool"

definition seen :: "names \<Rightarrow> string \<Rightarrow> bool" where
  "seen names k = (case names k of None \<Rightarrow> False | Some b \<Rightarrow> b)"

definition validateContainerName :: "Node \<Rightarrow> names \<Rightarrow> Validator \<Rightarrow> Validator \<times> names" where
  "validateContainerName node names v =
     (if Kind node \<noteq> ScalarNode then (Errorf (Line node) ''container name must be string'' v, names)
      else if Value node = [] then (Errorf (Line node) ''name is required'' v, names)
      else if \<not> MatchString snakeCaseRegex (Value node)
        then (Errorf (Line node) (''container name has invalid format '' @ quoted (Value node)) v, names)
      else if seen names (Value node)
        then (Errorf (Line node) (''container name '' @ quoted (Value node) @ '' is not unique'') v, names)
      else (v, names(Value node \<mapsto> True)))"

subsection \<open>Mappings and sequences\<close>

fun validateLabels_loop :: "Node list \<Rightarrow> Validator \<Rightarrow> Validator option" where
  "validateLabels_loop [] v = Some v"
| "validateLabels_loop [key] v = None"
| "validateLabels_loop (key # value # rest) v =
     (let v1 = (if Kind key \<noteq> ScalarNode then Errorf (Line key) ''label key must be string'' v else v);
          v2 = (if Kind value \<noteq> ScalarNode then Errorf (Line value) ''label value must be string'' v1 else v1)
      in validateLabels_loop rest v2)"

definition validateLabels :: "Node \<Rightarrow> Validator \<Rightarrow> Validator option" where
  "validateLabels node v =
     (if Kind node \<noteq> MappingNode then Some (Errorf (Line node) ''labels must be mapping'' v)
      else validateLabels_loop (Content node) v)"

fun validateMetadata_loop :: "Node list \<Rightarrow> Node option \<Rightarrow> Validator \<Rightarrow> (Node option \<times> Validator) option" where
  "validateMetadata_loop [] nameNode v = Some (nameNode, v)"
| "validateMetadata_loop [key] nameNode v = None"
| "validateMetadata_loop (key # value # rest) nameNode v =
     (if Value key = ''name'' then validateMetadata_loop rest (Some value) v
      else if Value key = ''namespace'' then
        validateMetadata_loop rest nameNode
          (if Kind value \<noteq> ScalarNode then Errorf (Line value) ''namespace must be string'' v else v)
      else if Value key = ''labels'' then
        (case validateLabels value v of
           None \<Rightarrow> None
         | Some v' \<Rightarrow> validateMetadata_loop rest nameNode v')
      else validateMetadata_loop rest nameNode v)"

definition validateMetadata :: "Node \<Rightarrow> Validator \<Rightarrow> Validator option" where
  "validateMetadata node v =
     (if Kind node \<noteq> MappingNode then Some (Errorf (Line node) ''metadata must be mapping'' v)
      else (case validateMetadata_loop (Content node) None v of
              None \<Rightarrow> None
            | Some (None, v') \<Rightarrow> Some (Errorf 0 ''metadata.name is required'' v')
            | Some (Some nameNode, v') \<Rightarrow> Some (validateName nameNode v')))"

fun validateResourceRequirements_loop :: "Node list \<Rightarrow> string \<Rightarrow> Validator \<Rightarrow> Validator option" where
  "validateResourceRequirements_loop [] prefix v = Some v"
| "validateResourceRequirements_loop [key] prefix v = None"
| "validateResourceRequirements_loop (key # value # rest) prefix v =
     (if Value key = ''cpu'' then validateResourceRequirements_loop rest prefix (validateCPU value v)
      else if Value key = ''memory''
        then validateResourceRequirements_loop rest prefix (validateMemory value prefix v)
      else validateResourceRequirements_loop rest prefix v)"

definition validateResourceRequirements :: "Node \<Rightarrow> string \<Rightarrow> Validator \<Rightarrow> Validator option" where
  "validateResourceRequirements node prefix v =
     (if Kind node \<noteq> MappingNode then Some (Errorf (Line node) (prefix @ '' must be mapping'') v)
      else validateResourceRequirements_loop (Content node) prefix v)"

fun validateResources_loop :: "Node list \<Rightarrow> Validator \<Rightarrow> Validator option" where
  "validateResources_loop [] v = Some v"
| "validateResources_loop [key] v = None"
| "validateResources_loop (key # value # rest) v =
     (if Value key = ''requests'' then
        (case validateResourceRequirements value ''requests'' v of
           None \<Rightarrow> None
         | Some v' \<Rightarrow> validateResources_loop rest v')
      else if Value key = ''limits'' then
        (case validateResourceRequirements value ''limits'' v of
           None \<Rightarrow> None
         | Some v' \<Rightarrow> validateResources_loop rest v')
      else validateResources_loop rest v)"

definition validateResources :: "Node \<Rightarrow> Validator \<Rightarrow> Validator option" where
  "validateResources node v =
     (if Kind node \<noteq> MappingNode then Some (Errorf (Line node) ''resources must be mapping'' v)
      else validateResources_loop (Content node) v)"

text \<open>One element of a \<open>ports\<close> sequence: the inner loop of \<open>validatePorts\<close>.\<close>

fun validatePorts_fields :: "Node list \<Rightarrow> Node option \<Rightarrow> Validator \<Rightarrow> (Node option \<times> Validator) option" where
  "validatePorts_fields [] containerPortNode v = Some (containerPortNode, v)"
| "validatePorts_fields [key] containerPortNode v = None"
| "validatePorts_fields (key # value # rest) containerPortNode v =
     (if Value key = ''containerPort'' then validatePorts_fields rest (Some value) v
      else if Value key = ''protocol''
        then validatePorts_fields rest containerPortNode (validateProtocol value v)
      else validatePorts_fields rest containerPortNode v)"

fun validatePorts_loop :: "Node list \<Rightarrow> Validator \<Rightarrow> Validator option" where
  "validatePorts_loop [] v = Some v"
| "validatePorts_loop (portNode # rest) v =
     (if Kind portNode \<noteq> MappingNode
      then validatePorts_loop rest (Errorf (Line portNode) ''port must be mapping'' v)
      else (case validatePorts_fields (Content portNode) None v of
              None \<Rightarrow> None
            | Some (None, v') \<Rightarrow> validatePorts_loop rest (Errorf 0 ''containerPort is required'' v')
            | Some (Some containerPortNode, v') \<Rightarrow>
                validatePorts_loop rest (validateContainerPort containerPortNode v')))"

definition validatePorts :: "Node \<Rightarrow> Validator \<Rightarrow> Validator option" where
  "validatePorts node v =
     (if Kind node \<noteq> SequenceNode then Some (Errorf (Line node) ''ports must be sequence'' v)
      else validatePorts_loop (Content node) v)"

fun validateHTTPGetAction_loop :: "Node list \<Rightarrow> Node option \<Rightarrow> Node option \<Rightarrow> (Node option \<times> Node option) option" where
  "validateHTTPGetAction_loop [] pathNode portNode = Some (pathNode, portNode)"
| "validateHTTPGetAction_loop [key] pathNode portNode = None"
| "validateHTTPGetAction_loop (key # value # rest) pathNode portNode =
     (if Value key = ''path'' then validateHTTPGetAction_loop rest (Some value) portNode
      else if Value key = ''port'' then validateHTTPGetAction_loop rest pathNode (Some value)
      else validateHTTPGetAction_loop rest pathNode portNode)"

definition validateHTTPGetAction :: "Node \<Rightarrow> Validator \<Rightarrow> Validator option" where
  "validateHTTPGetAction node v =
     (if Kind node \<noteq> MappingNode then Some (Errorf (Line node) ''httpGet must be mapping'' v)
      else (case validateHTTPGetAction_loop (Content node) None None of
              None \<Rightarrow> None
            | Some (pathNode, portNode) \<Rightarrow>
                (let v1 = (case pathNode of
                             None \<Rightarrow> Errorf 0 ''path is required'' v
                           | Some p \<Rightarrow> validatePath p v)
                 in Some (case portNode of
                            None \<Rightarrow> Errorf 0 ''port is required'' v1
                          | Some p \<Rightarrow> validateProbePort p v1))))"

fun validateProbe_loop :: "Node list \<Rightarrow> Node option \<Rightarrow> Node option option" where
  "validateProbe_loop [] httpGetNode = Some httpGetNode"
| "validateProbe_loop [key] httpGetNode = None"
| "validateProbe_loop (key # value # rest) httpGetNode =
     (if Value key = ''httpGet'' then validateProbe_loop rest (Some value)
      else validateProbe_loop rest httpGetNode)"

definition validateProbe :: "Node \<Rightarrow> Validator \<Rightarrow> Validator option" where
  "validateProbe node v =
     (if Kind node \<noteq> MappingNode then Some (Errorf (Line node) ''probe must be mapping'' v)
      else (case validateProbe_loop (Content node) None of
              None \<Rightarrow> None
            | Some None \<Rightarrow> Some (Errorf 0 ''httpGet is required'' v)
            | Some (Some httpGetNode) \<Rightarrow> validateHTTPGetAction httpGetNode v))"

text \<open>
  The field scan of \<open>validateContainer\<close>: \<open>name\<close>, \<open>image\<close> and \<open>resources\<close> are kept in
  locals, \<open>ports\<close> and the two probes are validated where they stand.
\<close>

fun validateContainer_loop ::
  "Node list \<Rightarrow> Node option \<Rightarrow> Node option \<Rightarrow> Node option \<Rightarrow> Validator
     \<Rightarrow> (Node option \<times> Node option \<times> Node option \<times> Validator) option" where
  "validateContainer_loop [] nameNode imageNode resourcesNode v =
     Some (nameNode, imageNode, resourcesNode, v)"
| "validateContainer_loop [key] nameNode imageNode resourcesNode v = None"
| "validateContainer_loop (key # value # rest) nameNode imageNode resourcesNode v =
     (if Value key = ''name'' then validateContainer_loop rest (Some value) imageNode resourcesNode v
      else if Value key = ''image'' then validateContainer_loop rest nameNode (Some value) resourcesNode v
      else if Value key = ''resources'' then validateContainer_loop rest nameNode imageNode (Some value) v
      else if Value key = ''ports'' then
        (case validatePorts value v of
           None \<Rightarrow> None
         | Some v' \<Rightarrow> validateContainer_loop rest nameNode imageNode resourcesNode v')
      else if Value key = ''readinessProbe'' then
        (case validateProbe value v of
           None \<Rightarrow> None
         | Some v' \<Rightarrow> validateContainer_loop rest nameNode imageNode resourcesNode v')
      else if Value key = ''livenessProbe'' then
        (case validateProbe value v of
           None \<Rightarrow> None
         | Some v' \<Rightarrow> validateContainer_loop rest nameNode imageNode resourcesNode v')
      else validateContainer_loop rest nameNode imageNode resourcesNode v)"

text \<open>The checks of \<open>validateContainer\<close> that follow the field scan.\<close>

definition validateContainer_checks ::
  "Node option \<Rightarrow> Node option \<Rightarrow> Node option \<Rightarrow> names \<Rightarrow> Validator \<Rightarrow> (Validator \<times> names) option" where
  "validateContainer_checks nameNode imageNode resourcesNode names v0 =
     (let (v1, names1) = (case nameNode of
                            None \<Rightarrow> (Errorf 0 ''container name is required'' v0, names)
                          | Some n \<Rightarrow> validateContainerName n names v0);
          v2 = (case imageNode of
                  None \<Rightarrow> Errorf 0 ''container image is required'' v1
                | Some n \<Rightarrow> validateImage n v1)
      in (case resourcesNode of
            None \<Rightarrow> Some (Errorf 0 ''container resources is required'' v2, names1)
          | Some n \<Rightarrow>
              (case validateResources n v2 of
                 None \<Rightarrow> None
               | Some v3 \<Rightarrow> Some (v3, names1))))"

definition validateContainer :: "Node \<Rightarrow> names \<Rightarrow> Validator \<Rightarrow> (Validator \<times> names) option" where
  "validateContainer node names v =
     (case validateContainer_loop (Content node) None None None v of
        None \<Rightarrow> None
      | Some (nameNode, imageNode, resourcesNode, v0) \<Rightarrow>
          validateContainer_checks nameNode imageNode resourcesNode names v0)"

fun validateContainers_loop :: "Node list \<Rightarrow> names \<Rightarrow> Validator \<Rightarrow> Validator option" where
  "validateContainers_loop [] names v = Some v"
| "validateContainers_loop (containerNode # rest) names v =
     (if Kind containerNode \<noteq> MappingNode
      then validateContainers_loop rest names (Errorf (Line containerNode) ''container must be mapping'' v)
      else (case validateContainer containerNode names v of
              None \<Rightarrow> None
            | Some (v', names') \<Rightarrow> validateContainers_loop rest names' v'))"

definition validateContainers :: "Node \<Rightarrow> Validator \<Rightarrow> Validator option" where
  "validateContainers node v =
     (if Kind node \<noteq> SequenceNode then Some (Errorf (Line node) ''containers must be sequence'' v)
      else validateContainers_loop (Content node) Map.empty v)"

fun validateSpec_loop :: "Node list \<Rightarrow> Validator \<Rightarrow> Validator option" where
  "validateSpec_loop [] v = Some v"
| "validateSpec_loop [key] v = None"
| "validateSpec_loop (key # value # rest) v =
     (if Value key = ''os'' then validateSpec_loop rest (validateOS value v)
      else if Value key = ''containers'' then
        (case validateContainers value v of
           None \<Rightarrow> None
         | Some v' \<Rightarrow> validateSpec_loop rest v')
      else validateSpec_loop rest v)"

definition validateSpec :: "Node \<Rightarrow> Validator \<Rightarrow> Validator option" where
  "validateSpec node v =
     (if Kind node \<noteq> MappingNode then Some (Errorf (Line node) ''spec must be mapping'' v)
      else validateSpec_loop (Content node) v)"

fun validateDocument_loop :: "Node list \<Rightarrow> Validator \<Rightarrow> Validator option" where
  "validateDocument_loop [] v = Some v"
| "validateDocument_loop [key] v = None"
| "validateDocument_loop (key # value # rest) v =
     (if Value key = ''apiVersion'' then validateDocument_loop rest (validateAPIVersion value v)
      else if Value key = ''kind'' then validateDocument_loop rest (validateKind value v)
      else if Value key = ''metadata'' then
        (case validateMetadata value v of
           None \<Rightarrow> None
         | Some v' \<Rightarrow> validateDocument_loop rest v')
      else if Value key = ''spec'' then
        (case validateSpec value v of
           None \<Rightarrow> None
         | Some v' \<Rightarrow> validateDocument_loop rest v')
      else validateDocument_loop rest v)"

definition validateDocument :: "Node \<Rightarrow> Validator \<Rightarrow> Validator option" where
  "validateDocument node v =
     (if Kind node \<noteq> MappingNode then Some (Errorf (Line node) ''root must be mapping'' v)
      else validateDocument_loop (Content node) v)"

text \<open>
  \<open>Validate\<close> reports an empty document and then reads \<open>root.Content[0]\<close> all the same.
  Its return value is an error exactly when the list of diagnostics is not empty.
\<close>

definition Validate :: "Node \<Rightarrow> Validator \<Rightarrow> Validator option" where
  "Validate root v =
     (let v1 = (if length (Content root) = 0 then Errorf 0 ''empty document'' v else v)
      in (case Content root of
            [] \<Rightarrow> None
          | doc # _ \<Rightarrow> validateDocument doc v1))"

definition validation_failed :: "Validator \<Rightarrow> bool" where
  "validation_failed v = (length (errors v) > 0)"

definition validateYAML :: "string \<Rightarrow> Node \<Rightarrow> Validator option" where
  "validateYAML fname root = Validate root (NewValidator fname)"

section \<open>The validator with the package-level error list\<close>

text \<open>
  The first program of \<open>main.go\<close> appends \<open>ValidationError\<close> values to the package-level
  variable \<open>errors\<close>. Each function here takes the current contents of that variable and
  returns the new contents. Functions whose names the other validators also use carry the
  suffix \<open>_pod\<close>. Where the source tests \<open>hasField\<close> and then indexes the map with the
  same key, the model reads the map once and distinguishes the two outcomes.
\<close>

record ValidationError =
  File :: string
  LineNo :: int
  Message :: string

definition String :: "ValidationError \<Rightarrow> string" where
  "String e =
     (if LineNo e > 0 then File e @ '':'' @ itoa (LineNo e) @ '' '' @ Message e
      else File e @ '' '' @ Message e)"

subsection \<open>Helper functions\<close>

type_synonym fields = "string \<rightharpoonup> Node"

fun parseMapping_loop :: "Node list \<Rightarrow> fields \<Rightarrow> fields" where
  "parseMapping_loop [] result = result"
| "parseMapping_loop [key] result = result"
| "parseMapping_loop (key # value # rest) result =
     parseMapping_loop rest (result(Value key \<mapsto> value))"

definition parseMapping :: "Node \<Rightarrow> fields" where
  "parseMapping node =
     (if Kind node \<noteq> MappingNode then Map.empty
      else parseMapping_loop (Content node) Map.empty)"

definition hasField :: "fields \<Rightarrow> string \<Rightarrow> bool" where
  "hasField m key = (case m key of None \<Rightarrow> False | Some node \<Rightarrow> True)"

definition getStringValue :: "fields \<Rightarrow> string \<Rightarrow> string" where
  "getStringValue m key = (case m key of None \<Rightarrow> [] | Some node \<Rightarrow> Value node)"

definition getIntValue :: "fields \<Rightarrow> string \<Rightarrow> int" where
  "getIntValue m key = (case m key of None \<Rightarrow> 0 | Some node \<Rightarrow> fst (Atoi (Value node)))"

definition getFieldLine :: "fields \<Rightarrow> string \<Rightarrow> int" where
  "getFieldLine m key = (case m key of None \<Rightarrow> 0 | Some node \<Rightarrow> Line node)"

text \<open>\<open>^[a-z0-9_]+$\<close>\<close>

definition isValidSnakeCase :: "string \<Rightarrow> bool" where
  "isValidSnakeCase s =
     (MatchString (Plus (Class [(CHR ''a'', CHR ''z''), (CHR ''0'', CHR ''9''), (CHR ''_'', CHR ''_'')])) s
      \<and> s \<noteq> [])"

definition isValidMemoryFormat :: "string \<Rightarrow> bool" where
  "isValidMemoryFormat s = MatchString memoryRegex s"

definition HasPrefix :: "string \<Rightarrow> string \<Rightarrow> bool" where
  "HasPrefix s pre = (take (length pre) s = pre)"

definition Contains :: "string \<Rightarrow> char \<Rightarrow> bool" where
  "Contains s c = list_ex (\<lambda>x. x = c) s"

subsection \<open>Validation\<close>

definition validateMetadata_pod :: "Node \<Rightarrow> string \<Rightarrow> ValidationError list \<Rightarrow> ValidationError list" where
  "validateMetadata_pod node filePath errs =
     (if Kind node \<noteq> MappingNode then errs
      else (let metadata = parseMapping node
            in if \<not> hasField metadata ''name''
               then errs @ [\<lparr>File = filePath, LineNo = 0, Message = ''metadata.name is required''\<rparr>]
               else if getStringValue metadata ''name'' = []
               then errs @ [\<lparr>File = filePath, LineNo = getFieldLine metadata ''name'',
                             Message = ''metadata.name is required''\<rparr>]
               else errs))"

definition validateOS_pod :: "Node \<Rightarrow> string \<Rightarrow> ValidationError list \<Rightarrow> ValidationError list" where
  "validateOS_pod node filePath errs =
     (if Kind node \<noteq> MappingNode then errs
      else (let osMap = parseMapping node
            in if \<not> hasField osMap ''name''
               then errs @ [\<lparr>File = filePath, LineNo = Line node, Message = ''os.name is required''\<rparr>]
               else (let osName = getStringValue osMap ''name''
                     in if osName \<noteq> ''linux'' \<and> osName \<noteq> ''windows''
                        then errs @ [\<lparr>File = filePath, LineNo = getFieldLine osMap ''name'',
                                      Message = ''os.name has unsupported value '' @ quoted osName\<rparr>]
                        else errs)))"

definition validateImage_pod :: "string \<Rightarrow> int \<Rightarrow> string \<Rightarrow> ValidationError list \<Rightarrow> ValidationError list" where
  "validateImage_pod image' line filePath errs =
     (if \<not> HasPrefix image' ''registry.bigbrother.io/''
      then errs @ [\<lparr>File = filePath, LineNo = line,
                    Message = ''containers.image has invalid format '' @ quoted image'\<rparr>]
      else if \<not> Contains (drop (length ''registry.bigbrother.io/'') image') CHR '':''
      then errs @ [\<lparr>File = filePath, LineNo = line,
                    Message = ''containers.image has invalid format '' @ quoted image'\<rparr>]
      else errs)"

fun validatePorts_pod_loop :: "Node list \<Rightarrow> string \<Rightarrow> ValidationError list \<Rightarrow> ValidationError list" where
  "validatePorts_pod_loop [] filePath errs = errs"
| "validatePorts_pod_loop (portNode # rest) filePath errs =
     (if Kind portNode \<noteq> MappingNode then validatePorts_pod_loop rest filePath errs
      else (let port = parseMapping portNode;
                errs1 =
                  (if \<not> hasField port ''containerPort''
                   then errs @ [\<lparr>File = filePath, LineNo = Line portNode,
                                 Message = ''containers.ports.containerPort is required''\<rparr>]
                   else (let portValue = getIntValue port ''containerPort''
                         in if portValue \<le> 0 \<or> portValue > 65535
                            then errs @ [\<lparr>File = filePath, LineNo = getFieldLine port ''containerPort'',
                                          Message = ''containers.ports.containerPort value out of range''\<rparr>]
                            else errs));
                errs2 =
                  (if hasField port ''protocol''
                   then (let protocol = getStringValue port ''protocol''
                         in if protocol \<noteq> ''TCP'' \<and> protocol \<noteq> ''UDP''
                            then errs1 @ [\<lparr>File = filePath, LineNo = getFieldLine port ''protocol'',
                                           Message = ''containers.ports.protocol has unsupported value ''
                                                       @ quoted protocol\<rparr>]
                            else errs1)
                   else errs1)
            in validatePorts_pod_loop rest filePath errs2))"

definition validatePorts_pod :: "Node \<Rightarrow> string \<Rightarrow> ValidationError list \<Rightarrow> ValidationError list" where
  "validatePorts_pod node filePath errs =
     (if Kind node \<noteq> SequenceNode then errs
      else validatePorts_pod_loop (Content node) filePath errs)"

definition validateHTTPGetAction_pod :: "Node \<Rightarrow> string \<Rightarrow> string \<Rightarrow> ValidationError list \<Rightarrow> ValidationError list" where
  "validateHTTPGetAction_pod node probeName filePath errs =
     (if Kind node \<noteq> MappingNode then errs
      else (let action = parseMapping node;
                errs1 =
                  (if \<not> hasField action ''path''
                   then errs @ [\<lparr>File = filePath, LineNo = Line node,
                                 Message = ''containers.'' @ probeName @ ''.httpGet.path is required''\<rparr>]
                   else (let path = getStringValue action ''path''
                         in if \<not> HasPrefix path ''/''
                            then errs @ [\<lparr>File = filePath, LineNo = getFieldLine action ''path'',
                                          Message = ''containers.'' @ probeName
                                                      @ ''.httpGet.path has invalid format '' @ quoted path\<rparr>]
                            else errs))
            in if \<not> hasField action ''port''
               then errs1 @ [\<lparr>File = filePath, LineNo = Line node,
                              Message = ''containers.'' @ probeName @ ''.httpGet.port is required''\<rparr>]
               else (let portValue = getIntValue action ''port''
                     in if portValue \<le> 0 \<or> portValue > 65535
                        then errs1 @ [\<lparr>File = filePath, LineNo = getFieldLine action ''port'',
                                       Message = ''containers.'' @ probeName
                                                   @ ''.httpGet.port value out of range''\<rparr>]
                        else errs1)))"

definition validateProbe_pod :: "Node \<Rightarrow> string \<Rightarrow> string \<Rightarrow> ValidationError list \<Rightarrow> ValidationError list" where
  "validateProbe_pod node probeName filePath errs =
     (if Kind node \<noteq> MappingNode then errs
      else (let probe = parseMapping node
            in (case probe ''httpGet'' of
                  None \<Rightarrow> errs @ [\<lparr>File = filePath, LineNo = Line node,
                                    Message = ''containers.'' @ probeName @ ''.httpGet is required''\<rparr>]
                | Some httpGet \<Rightarrow> validateHTTPGetAction_pod httpGet probeName filePath errs)))"

definition validateResourceSpec :: "Node \<Rightarrow> string \<Rightarrow> string \<Rightarrow> ValidationError list \<Rightarrow> ValidationError list" where
  "validateResourceSpec node specName filePath errs =
     (if Kind node \<noteq> MappingNode then errs
      else (let spec = parseMapping node;
                errs1 =
                  (if hasField spec ''cpu''
                   then (let cpuValue = getIntValue spec ''cpu''
                         in if cpuValue \<le> 0
                            then errs @ [\<lparr>File = filePath, LineNo = getFieldLine spec ''cpu'',
                                          Message = ''containers.resources.'' @ specName
                                                      @ ''.cpu value out of range''\<rparr>]
                            else errs)
                   else errs)
            in if hasField spec ''memory''
               then (let memory = getStringValue spec ''memory''
                     in if \<not> isValidMemoryFormat memory
                        then errs1 @ [\<lparr>File = filePath, LineNo = getFieldLine spec ''memory'',
                                       Message = ''containers.resources.'' @ specName
                                                   @ ''.memory has invalid format '' @ quoted memory\<rparr>]
                        else errs1)
               else errs1))"

definition validateResources_pod :: "Node \<Rightarrow> string \<Rightarrow> ValidationError list \<Rightarrow> ValidationError list" where
  "validateResources_pod node filePath errs =
     (if Kind node \<noteq> MappingNode then errs
      else (let resources = parseMapping node;
                errs1 = (case resources ''requests'' of
                           None \<Rightarrow> errs
                         | Some requests \<Rightarrow> validateResourceSpec requests ''requests'' filePath errs)
            in (case resources ''limits'' of
                  None \<Rightarrow> errs1
                | Some limits \<Rightarrow> validateResourceSpec limits ''limits'' filePath errs1)))"

text \<open>
  The body of the loop of \<open>validateContainers\<close> for one mapping element, block by block
  as the comments of the source divide it: name, image, ports, probes, resources.
\<close>

definition container_name_pod ::
  "fields \<Rightarrow> Node \<Rightarrow> string \<Rightarrow> names \<Rightarrow> ValidationError list \<Rightarrow> ValidationError list \<times> names" where
  "container_name_pod container containerNode filePath containerNames errs =
     (if \<not> hasField container ''name''
      then (errs @ [\<lparr>File = filePath, LineNo = Line containerNode,
                      Message = ''containers.name is required''\<rparr>], containerNames)
      else (let name = getStringValue container ''name'';
                e1 = (if \<not> isValidSnakeCase name
                      then errs @ [\<lparr>File = filePath, LineNo = getFieldLine container ''name'',
                                    Message = ''containers.name has invalid format '' @ quoted name\<rparr>]
                      else errs);
                e2 = (if seen containerNames name
                      then e1 @ [\<lparr>File = filePath, LineNo = getFieldLine container ''name'',
                                  Message = ''containers.name must be unique, '' @ quoted name
                                              @ '' is duplicated''\<rparr>]
                      else e1)
            in (e2, containerNames(name \<mapsto> True))))"

definition container_image_pod ::
  "fields \<Rightarrow> Node \<Rightarrow> string \<Rightarrow> ValidationError list \<Rightarrow> ValidationError list" where
  "container_image_pod container containerNode filePath errs =
     (if \<not> hasField container ''image''
      then errs @ [\<lparr>File = filePath, LineNo = Line containerNode,
                    Message = ''containers.image is required''\<rparr>]
      else validateImage_pod (getStringValue container ''image'')
             (getFieldLine container ''image'') filePath errs)"

definition container_ports_pod ::
  "fields \<Rightarrow> string \<Rightarrow> ValidationError list \<Rightarrow> ValidationError list" where
  "container_ports_pod container filePath errs =
     (case container ''ports'' of
        None \<Rightarrow> errs
      | Some ports \<Rightarrow> validatePorts_pod ports filePath errs)"

definition container_probes_pod ::
  "fields \<Rightarrow> string \<Rightarrow> ValidationError list \<Rightarrow> ValidationError list" where
  "container_probes_pod container filePath errs =
     (let errs1 = (case container ''readinessProbe'' of
                     None \<Rightarrow> errs
                   | Some probe \<Rightarrow> validateProbe_pod probe ''readinessProbe'' filePath errs)
      in (case container ''livenessProbe'' of
            None \<Rightarrow> errs1
          | Some probe \<Rightarrow> validateProbe_pod probe ''livenessProbe'' filePath errs1))"

definition container_resources_pod ::
  "fields \<Rightarrow> Node \<Rightarrow> string \<Rightarrow> ValidationError list \<Rightarrow> ValidationError list" where
  "container_resources_pod container containerNode filePath errs =
     (case container ''resources'' of
        None \<Rightarrow> errs @ [\<lparr>File = filePath, LineNo = Line containerNode,
                          Message = ''containers.resources is required''\<rparr>]
      | Some resources \<Rightarrow> validateResources_pod resources filePath errs)"

definition validateContainers_pod_body ::
  "Node \<Rightarrow> string \<Rightarrow> names \<Rightarrow> ValidationError list \<Rightarrow> ValidationError list \<times> names" where
  "validateContainers_pod_body containerNode filePath containerNames errs =
     (let container = parseMapping containerNode;
          (errs1, names1) = container_name_pod container containerNode filePath containerNames errs;
          errs2 = container_image_pod container containerNode filePath errs1;
          errs3 = container_ports_pod container filePath errs2;
          errs4 = container_probes_pod container filePath errs3;
          errs5 = container_resources_pod container containerNode filePath errs4
      in (errs5, names1))"

fun validateContainers_pod_loop ::
  "Node list \<Rightarrow> string \<Rightarrow> names \<Rightarrow> ValidationError list \<Rightarrow> ValidationError list" where
  "validateContainers_pod_loop [] filePath containerNames errs = errs"
| "validateContainers_pod_loop (containerNode # rest) filePath containerNames errs =
     (if Kind containerNode \<noteq> MappingNode
      then validateContainers_pod_loop rest filePath containerNames errs
      else (case validateContainers_pod_body containerNode filePath containerNames errs of
              (errs', names') \<Rightarrow> validateContainers_pod_loop rest filePath names' errs'))"

definition validateContainers_pod :: "Node \<Rightarrow> string \<Rightarrow> ValidationError list \<Rightarrow> ValidationError list" where
  "validateContainers_pod node filePath errs =
     (if Kind node \<noteq> SequenceNode
      then errs @ [\<lparr>File = filePath, LineNo = Line node, Message = ''spec.containers must be a list''\<rparr>]
      else validateContainers_pod_loop (Content node) filePath Map.empty errs)"

definition validateSpec_pod :: "Node \<Rightarrow> string \<Rightarrow> ValidationError list \<Rightarrow> ValidationError list" where
  "validateSpec_pod node filePath errs =
     (if Kind node \<noteq> MappingNode then errs
      else (let spec = parseMapping node;
                errs1 = (case spec ''os'' of
                           None \<Rightarrow> errs
                         | Some os \<Rightarrow> validateOS_pod os filePath errs)
            in (case spec ''containers'' of
                  None \<Rightarrow> errs1 @ [\<lparr>File = filePath, LineNo = 0,
                                     Message = ''spec.containers is required''\<rparr>]
                | Some containers \<Rightarrow> validateContainers_pod containers filePath errs1)))"

text \<open>The checks of \<open>validatePod\<close> on the top-level fields, one definition per field.\<close>

definition pod_apiVersion :: "fields \<Rightarrow> string \<Rightarrow> ValidationError list \<Rightarrow> ValidationError list" where
  "pod_apiVersion pod filePath errs =
     (if \<not> hasField pod ''apiVersion''
      then errs @ [\<lparr>File = filePath, LineNo = 0, Message = ''apiVersion is required''\<rparr>]
      else (let apiVersion = getStringValue pod ''apiVersion''
            in if apiVersion \<noteq> ''v1''
               then errs @ [\<lparr>File = filePath, LineNo = getFieldLine pod ''apiVersion'',
                             Message = ''apiVersion has unsupported value '' @ quoted apiVersion\<rparr>]
               else errs))"

definition pod_kind :: "fields \<Rightarrow> string \<Rightarrow> ValidationError list \<Rightarrow> ValidationError list" where
  "pod_kind pod filePath errs =
     (if \<not> hasField pod ''kind''
      then errs @ [\<lparr>File = filePath, LineNo = 0, Message = ''kind is required''\<rparr>]
      else (let kind = getStringValue pod ''kind''
            in if kind \<noteq> ''Pod''
               then errs @ [\<lparr>File = filePath, LineNo = getFieldLine pod ''kind'',
                             Message = ''kind has unsupported value '' @ quoted kind\<rparr>]
               else errs))"

definition pod_metadata :: "fields \<Rightarrow> string \<Rightarrow> ValidationError list \<Rightarrow> ValidationError list" where
  "pod_metadata pod filePath errs =
     (case pod ''metadata'' of
        None \<Rightarrow> errs @ [\<lparr>File = filePath, LineNo = 0, Message = ''metadata is required''\<rparr>]
      | Some metadata \<Rightarrow> validateMetadata_pod metadata filePath errs)"

definition pod_spec :: "fields \<Rightarrow> string \<Rightarrow> ValidationError list \<Rightarrow> ValidationError list" where
  "pod_spec pod filePath errs =
     (case pod ''spec'' of
        None \<Rightarrow> errs @ [\<lparr>File = filePath, LineNo = 0, Message = ''spec is required''\<rparr>]
      | Some spec \<Rightarrow> validateSpec_pod spec filePath errs)"

definition validatePod :: "Node \<Rightarrow> string \<Rightarrow> ValidationError list \<Rightarrow> ValidationError list" where
  "validatePod root filePath errs =
     (if Kind root \<noteq> DocumentNode \<or> length (Content root) = 0 then errs
      else (let doc = Content root ! 0
            in if Kind doc \<noteq> MappingNode then errs
               else (let pod = parseMapping doc;
                         errs1 = pod_apiVersion pod filePath errs;
                         errs2 = pod_kind pod filePath errs1;
                         errs3 = pod_metadata pod filePath errs2
                     in pod_spec pod filePath errs3)))"

text \<open>
  One run of the program: the package-level list starts empty, \<open>main\<close> validates the one
  document and prints every entry. The exit code is 1 exactly when the list is not empty.
\<close>

definition main_errors :: "string \<Rightarrow> Node \<Rightarrow> ValidationError list" where
  "main_errors filePath root = validatePod root filePath []"

section \<open>The validator that collects the fields of every mapping first\<close>

text \<open>
  The second program of \<open>main.go\<close> has the same \<open>Validator\<close>, \<open>NewValidator\<close> and
  \<open>Errorf\<close>, and the same \<open>validateLabels\<close>, \<open>validateOS\<close>, \<open>validateContainerName\<close>,
  \<open>validateImage\<close>, \<open>validateMemory\<close>, \<open>validateContainerPort\<close>, \<open>validateProtocol\<close> and
  \<open>validateProbePort\<close>, word for word. Its other methods first copy the children of a
  mapping into a local map \<open>fields\<close> and then check the known keys in a fixed order; they
  carry the suffix \<open>_top\<close> here. The loop that fills \<open>fields\<close> reads \<open>Content[i+1]\<close>
  without a bound check, so an odd number of children panics (\<open>None\<close>).
\<close>

fun collect_fields :: "Node list \<Rightarrow> fields \<Rightarrow> fields option" where
  "collect_fields [] fs = Some fs"
| "collect_fields [key] fs = None"
| "collect_fields (key # value # rest) fs = collect_fields rest (fs(Value key \<mapsto> value))"

definition validateAPIVersion_top :: "Node \<Rightarrow> Validator \<Rightarrow> Validator" where
  "validateAPIVersion_top node v =
     (if Value node \<noteq> ''v1''
      then Errorf (Line node) (''apiVersion has unsupported value '' @ quoted (Value node)) v
      else v)"

definition validateKind_top :: "Node \<Rightarrow> Validator \<Rightarrow> Validator" where
  "validateKind_top node v =
     (if Value node \<noteq> ''Pod''
      then Errorf (Line node) (''kind has unsupported value '' @ quoted (Value node)) v
      else v)"

definition validateMetadata_top :: "Node \<Rightarrow> Validator \<Rightarrow> Validator option" where
  "validateMetadata_top node v =
     (if Kind node \<noteq> MappingNode then Some (Errorf (Line node) ''metadata must be mapping'' v)
      else (case collect_fields (Content node) Map.empty of
              None \<Rightarrow> None
            | Some fs \<Rightarrow>
                (let v1 = (case fs ''name'' of
                             None \<Rightarrow> Errorf 0 ''metadata.name is required'' v
                           | Some nameNode \<Rightarrow>
                               if Kind nameNode \<noteq> ScalarNode
                               then Errorf (Line nameNode) ''name must be string'' v
                               else if Value nameNode = []
                               then Errorf (Line nameNode) ''name is required'' v
                               else v);
                     v2 = (case fs ''namespace'' of
                             None \<Rightarrow> v1
                           | Some namespaceNode \<Rightarrow>
                               if Kind namespaceNode \<noteq> ScalarNode
                               then Errorf (Line namespaceNode) ''namespace must be string'' v1
                               else v1)
                 in (case fs ''labels'' of
                       None \<Rightarrow> Some v2
                     | Some labelsNode \<Rightarrow> validateLabels labelsNode v2))))"

definition validateCPU_top :: "Node \<Rightarrow> string \<Rightarrow> Validator \<Rightarrow> Validator" where
  "validateCPU_top node prefix v =
     (if Kind node \<noteq> ScalarNode then Errorf (Line node) (prefix @ ''.cpu must be integer'') v
      else if snd (Atoi (Value node)) \<noteq> None
        then Errorf (Line node) (prefix @ ''.cpu must be integer'') v
      else v)"

fun validateResourceRequirements_top_loop :: "Node list \<Rightarrow> string \<Rightarrow> Validator \<Rightarrow> Validator option" where
  "validateResourceRequirements_top_loop [] prefix v = Some v"
| "validateResourceRequirements_top_loop [key] prefix v = None"
| "validateResourceRequirements_top_loop (key # value # rest) prefix v =
     (if Value key = ''cpu''
        then validateResourceRequirements_top_loop rest prefix (validateCPU_top value prefix v)
      else if Value key = ''memory''
        then validateResourceRequirements_top_loop rest prefix (validateMemory value prefix v)
      else validateResourceRequirements_top_loop rest prefix
             (Errorf (Line key) (prefix @ ''.'' @ Value key @ '' has unsupported resource type'') v))"

definition validateResourceRequirements_top :: "Node \<Rightarrow> string \<Rightarrow> Validator \<Rightarrow> Validator option" where
  "validateResourceRequirements_top node prefix v =
     (if Kind node \<noteq> MappingNode then Some (Errorf (Line node) (prefix @ '' must be mapping'') v)
      else validateResourceRequirements_top_loop (Content node) prefix v)"

definition validateResources_top :: "Node \<Rightarrow> Validator \<Rightarrow> Validator option" where
  "validateResources_top node v =
     (if Kind node \<noteq> MappingNode then Some (Errorf (Line node) ''resources must be mapping'' v)
      else (case collect_fields (Content node) Map.empty of
              None \<Rightarrow> None
            | Some fs \<Rightarrow>
                (case (case fs ''requests'' of
                         None \<Rightarrow> Some v
                       | Some requestsNode \<Rightarrow> validateResourceRequirements_top requestsNode ''requests'' v) of
                   None \<Rightarrow> None
                 | Some v1 \<Rightarrow>
                     (case fs ''limits'' of
                        None \<Rightarrow> Some v1
                      | Some limitsNode \<Rightarrow> validateResourceRequirements_top limitsNode ''limits'' v1))))"

fun validatePorts_top_loop :: "Node list \<Rightarrow> Validator \<Rightarrow> Validator option" where
  "validatePorts_top_loop [] v = Some v"
| "validatePorts_top_loop (portNode # rest) v =
     (if Kind portNode \<noteq> MappingNode
      then validatePorts_top_loop rest (Errorf (Line portNode) ''port must be mapping'' v)
      else (case collect_fields (Content portNode) Map.empty of
              None \<Rightarrow> None
            | Some fs \<Rightarrow>
                (let v1 = (case fs ''containerPort'' of
                             None \<Rightarrow> Errorf 0 ''containerPort is required'' v
                           | Some p \<Rightarrow> validateContainerPort p v);
                     v2 = (case fs ''protocol'' of
                             None \<Rightarrow> v1
                           | Some protocolNode \<Rightarrow> validateProtocol protocolNode v1)
                 in validatePorts_top_loop rest v2)))"

definition validatePorts_top :: "Node \<Rightarrow> Validator \<Rightarrow> Validator option" where
  "validatePorts_top node v =
     (if Kind node \<noteq> SequenceNode then Some (Errorf (Line node) ''ports must be sequence'' v)
      else validatePorts_top_loop (Content node) v)"

definition validateHTTPGetAction_top :: "Node \<Rightarrow> Validator \<Rightarrow> Validator option" where
  "validateHTTPGetAction_top node v =
     (if Kind node \<noteq> MappingNode then Some (Errorf (Line node) ''httpGet must be mapping'' v)
      else (case collect_fields (Content node) Map.empty of
              None \<Rightarrow> None
            | Some fs \<Rightarrow>
                (let v1 = (case fs ''path'' of
                             None \<Rightarrow> Errorf 0 ''path is required'' v
                           | Some pathNode \<Rightarrow>
                               if Kind pathNode \<noteq> ScalarNode
                               then Errorf (Line pathNode) ''path must be string'' v
                               else if length (Value pathNode) = 0 \<or> Value pathNode ! 0 \<noteq> CHR ''/''
                               then Errorf (Line pathNode) ''path must be absolute path'' v
                               else v)
                 in Some (case fs ''port'' of
                            None \<Rightarrow> Errorf 0 ''port is required'' v1
                          | Some portNode \<Rightarrow> validateProbePort portNode v1))))"

definition validateProbe_top :: "Node \<Rightarrow> Validator \<Rightarrow> Validator option" where
  "validateProbe_top node v =
     (if Kind node \<noteq> MappingNode then Some (Errorf (Line node) ''probe must be mapping'' v)
      else (case collect_fields (Content node) Map.empty of
              None \<Rightarrow> None
            | Some fs \<Rightarrow>
                (case fs ''httpGet'' of
                   None \<Rightarrow> Some (Errorf 0 ''httpGet is required'' v)
                 | Some httpGetNode \<Rightarrow> validateHTTPGetAction_top httpGetNode v)))"

text \<open>The body of the loop of \<open>validateContainers\<close>, for one mapping element.\<close>

definition validateContainers_top_body :: "Node \<Rightarrow> names \<Rightarrow> Validator \<Rightarrow> (Validator \<times> names) option" where
  "validateContainers_top_body containerNode containerNames v =
     (case collect_fields (Content containerNode) Map.empty of
        None \<Rightarrow> None
      | Some fs \<Rightarrow>
          (let (v1, names1) = (case fs ''name'' of
                                 None \<Rightarrow> (Errorf 0 ''container name is required'' v, containerNames)
                               | Some n \<Rightarrow> validateContainerName n containerNames v);
               v2 = (case fs ''image'' of
                       None \<Rightarrow> Errorf 0 ''container image is required'' v1
                     | Some n \<Rightarrow> validateImage n v1)
           in (case (case fs ''resources'' of
                       None \<Rightarrow> Some (Errorf 0 ''container resources is required'' v2)
                     | Some n \<Rightarrow> validateResources_top n v2) of
                 None \<Rightarrow> None
               | Some v3 \<Rightarrow>
                   (case (case fs ''ports'' of
                            None \<Rightarrow> Some v3
                          | Some n \<Rightarrow> validatePorts_top n v3) of
                      None \<Rightarrow> None
                    | Some v4 \<Rightarrow>
                        (case (case fs ''readinessProbe'' of
                                 None \<Rightarrow> Some v4
                               | Some n \<Rightarrow> validateProbe_top n v4) of
                           None \<Rightarrow> None
                         | Some v5 \<Rightarrow>
                             (case (case fs ''livenessProbe'' of
                                      None \<Rightarrow> Some v5
                                    | Some n \<Rightarrow> validateProbe_top n v5) of
                                None \<Rightarrow> None
                              | Some v6 \<Rightarrow> Some (v6, names1)))))))"

fun validateContainers_top_loop :: "Node list \<Rightarrow> names \<Rightarrow> Validator \<Rightarrow> Validator option" where
  "validateContainers_top_loop [] containerNames v = Some v"
| "validateContainers_top_loop (containerNode # rest) containerNames v =
     (if Kind containerNode \<noteq> MappingNode
      then validateContainers_top_loop rest containerNames
             (Errorf (Line containerNode) ''container must be mapping'' v)
      else (case validateContainers_top_body containerNode containerNames v of
              None \<Rightarrow> None
            | Some (v', names') \<Rightarrow> validateContainers_top_loop rest names' v'))"

definition validateContainers_top :: "Node \<Rightarrow> Validator \<Rightarrow> Validator option" where
  "validateContainers_top node v =
     (if Kind node \<noteq> SequenceNode then Some (Errorf (Line node) ''containers must be sequence'' v)
      else validateContainers_top_loop (Content node) Map.empty v)"

definition validateSpec_top :: "Node \<Rightarrow> Validator \<Rightarrow> Validator option" where
  "validateSpec_top node v =
     (if Kind node \<noteq> MappingNode then Some (Errorf (Line node) ''spec must be mapping'' v)
      else (case collect_fields (Content node) Map.empty of
              None \<Rightarrow> None
            | Some fs \<Rightarrow>
                (let v1 = (case fs ''os'' of None \<Rightarrow> v | Some osNode \<Rightarrow> validateOS osNode v)
                 in (case fs ''containers'' of
                       None \<Rightarrow> Some (Errorf 0 ''spec.containers is required'' v1)
                     | Some containersNode \<Rightarrow> validateContainers_top containersNode v1))))"

definition validateTopLevel :: "Node \<Rightarrow> Validator \<Rightarrow> Validator option" where
  "validateTopLevel root v =
     (case Content root of
        [] \<Rightarrow> Some (Errorf 0 ''empty document'' v)
      | doc # _ \<Rightarrow>
          if Kind doc \<noteq> MappingNode then Some (Errorf (Line doc) ''root must be mapping'' v)
          else (case collect_fields (Content doc) Map.empty of
                  None \<Rightarrow> None
                | Some fs \<Rightarrow>
                    (let v1 = (case fs ''apiVersion'' of
                                 None \<Rightarrow> Errorf 0 ''apiVersion is required'' v
                               | Some node \<Rightarrow> validateAPIVersion_top node v);
                         v2 = (case fs ''kind'' of
                                 None \<Rightarrow> Errorf 0 ''kind is required'' v1
                               | Some node \<Rightarrow> validateKind_top node v1)
                     in (case (case fs ''metadata'' of
                                 None \<Rightarrow> Some (Errorf 0 ''metadata is required'' v2)
                               | Some node \<Rightarrow> validateMetadata_top node v2) of
                           None \<Rightarrow> None
                         | Some v3 \<Rightarrow>
                             (case fs ''spec'' of
                                None \<Rightarrow> Some (Errorf 0 ''spec is required'' v3)
                              | Some node \<Rightarrow> validateSpec_top node v3)))))"

definition Validate_top :: "Node \<Rightarrow> Validator \<Rightarrow> Validator option" where
  "Validate_top root v = validateTopLevel root v"

section \<open>Notions used to state the properties\<close>

text \<open>
  The rendered diagnostic for a line and a message, as \<open>Errorf\<close> and \<open>String\<close> print
  it: the file name, a colon, the line, a blank and the message when the line is positive;
  the file name, a blank and the message otherwise.
\<close>

definition diagnostic :: "string \<Rightarrow> int \<Rightarrow> string \<Rightarrow> string" where
  "diagnostic fname line msg =
     (if line > 0 then fname @ '':'' @ itoa line @ '' '' @ msg else fname @ '' '' @ msg)"

text \<open>
  The key texts of a mapping with their values, in document order, and the value of the
  last occurrence of a key.
\<close>

fun key_values :: "Node list \<Rightarrow> (string \<times> Node) list" where
  "key_values (key # value # rest) = (Value key, value) # key_values rest"
| "key_values _ = []"

definition last_occurrence :: "string \<Rightarrow> Node list \<Rightarrow> Node option" where
  "last_occurrence k content =
     (case filter (\<lambda>kv. fst kv = k) (key_values content) of
        [] \<Rightarrow> None
      | kv # kvs \<Rightarrow> Some (snd (last (kv # kvs))))"

text \<open>
  The set of texts a pattern describes: the meaning of the patterns, against which
  the matcher is justified.
\<close>

definition conc :: "string set \<Rightarrow> string set \<Rightarrow> string set" where
  "conc A B = {xs @ ys | xs ys. xs \<in> A \<and> ys \<in> B}"

inductive_set star :: "string set \<Rightarrow> string set" for A :: "string set" where
  star_empty: "[] \<in> star A"
| star_more: "w \<in> A \<Longrightarrow> ws \<in> star A \<Longrightarrow> w @ ws \<in> star A"

fun lang :: "rexp \<Rightarrow> string set" where
  "lang Empty = {}"
| "lang Eps = {[]}"
| "lang (Class rs) = {[c] | c. in_class rs c}"
| "lang (Alt r s) = lang r \<union> lang s"
| "lang (Seq r s) = conc (lang r) (lang s)"
| "lang (Star r) = star (lang r)"

text \<open>
  The identifier format in words: lowercase letters and underscores only, not empty, no
  underscore at either end and no two underscores in a row.
\<close>

definition is_lower :: "char \<Rightarrow> bool" where
  "is_lower c = in_class [(CHR ''a'', CHR ''z'')] c"

fun doubled_underscore :: "string \<Rightarrow> bool" where
  "doubled_underscore (a # b # rest) =
     ((a = CHR ''_'' \<and> b = CHR ''_'') \<or> doubled_underscore (b # rest))"
| "doubled_underscore _ = False"

definition snake_case :: "string \<Rightarrow> bool" where
  "snake_case s =
     (s \<noteq> [] \<and> list_all (\<lambda>c. is_lower c \<or> c = CHR ''_'') s
      \<and> hd s \<noteq> CHR ''_'' \<and> last s \<noteq> CHR ''_'' \<and> \<not> doubled_underscore s)"

text \<open>A two-state recogniser of the same format: the flag says that a letter was just read.\<close>

fun snake_scan :: "bool \<Rightarrow> string \<Rightarrow> bool" where
  "snake_scan after_letter [] = after_letter"
| "snake_scan after_letter (c # cs) =
     (if is_lower c then snake_scan True cs
      else if c = CHR ''_'' \<and> after_letter then snake_scan False cs
      else False)"

text \<open>
  A validator whose list of diagnostics is preceded by further entries: used to say that
  what a check appends does not depend on what the list already holds.
\<close>

definition shift :: "string list \<Rightarrow> Validator \<Rightarrow> Validator" where
  "shift es v = v\<lparr>errors := es @ errors v\<rparr>"

text \<open>
  The diagnostics a check has appended, and the property that every one of them satisfies
  a given predicate.
\<close>

definition appended :: "Validator \<Rightarrow> Validator \<Rightarrow> string list" where
  "appended v w = drop (length (errors v)) (errors w)"

definition adds :: "(string \<Rightarrow> bool) \<Rightarrow> Validator \<Rightarrow> Validator \<Rightarrow> bool" where
  "adds Q v w =
     (filename w = filename v \<and> take (length (errors v)) (errors w) = errors v
      \<and> list_all Q (appended v w))"

text \<open>A diagnostic that reports a repeated container name ends in \<open>is not unique\<close>.\<close>

definition ends_with :: "string \<Rightarrow> string \<Rightarrow> bool" where
  "ends_with suf s = (length suf \<le> length s \<and> drop (length s - length suf) s = suf)"

definition uniqueness_error :: "string \<Rightarrow> bool" where
  "uniqueness_error e = ends_with '' is not unique'' e"

text \<open>
  A message of at least two characters that does not end in \<open>ue\<close>; no such message is
  the report of a repeated container name. A check is \<open>quiet\<close> when none of the
  diagnostics it appends reports a repeated name.
\<close>

definition plain :: "string \<Rightarrow> bool" where
  "plain m = (2 \<le> length m \<and> (last m \<noteq> CHR ''e'' \<or> last (butlast m) \<noteq> CHR ''u''))"

definition quiet :: "Validator \<Rightarrow> Validator \<Rightarrow> bool" where
  "quiet v w = adds (\<lambda>e. \<not> uniqueness_error e) v w"

text \<open>
  The container rule in the words of the specification: the values of \<open>ports\<close>,
  \<open>readinessProbe\<close> and \<open>livenessProbe\<close> are validated where they stand, in document
  order; the other keys contribute nothing during the scan.
\<close>

fun inline_checks :: "Node list \<Rightarrow> Validator \<Rightarrow> Validator option" where
  "inline_checks [] v = Some v"
| "inline_checks [key] v = None"
| "inline_checks (key # value # rest) v =
     (if Value key = ''ports'' then
        (case validatePorts value v of None \<Rightarrow> None | Some v' \<Rightarrow> inline_checks rest v')
      else if Value key = ''readinessProbe'' \<or> Value key = ''livenessProbe'' then
        (case validateProbe value v of None \<Rightarrow> None | Some v' \<Rightarrow> inline_checks rest v')
      else inline_checks rest v)"

text \<open>
  The checks that follow the scan, each on the last value written for its key: first the
  name, then the image, then the resources.
\<close>

definition name_check :: "Node option \<Rightarrow> names \<Rightarrow> Validator \<Rightarrow> Validator \<times> names" where
  "name_check n names v =
     (case n of
        None \<Rightarrow> (Errorf 0 ''container name is required'' v, names)
      | Some node \<Rightarrow> validateContainerName node names v)"

definition image_check :: "Node option \<Rightarrow> Validator \<Rightarrow> Validator" where
  "image_check n v =
     (case n of
        None \<Rightarrow> Errorf 0 ''container image is required'' v
      | Some node \<Rightarrow> validateImage node v)"

definition resources_check :: "Node option \<Rightarrow> Validator \<Rightarrow> Validator option" where
  "resources_check n v =
     (case n of
        None \<Rightarrow> Some (Errorf 0 ''container resources is required'' v)
      | Some node \<Rightarrow> validateResources node v)"

definition checks_after_scan :: "Node list \<Rightarrow> names \<Rightarrow> Validator \<Rightarrow> (Validator \<times> names) option" where
  "checks_after_scan content names v0 =
     (case name_check (last_occurrence ''name'' content) names v0 of
        (v1, names1) \<Rightarrow>
          (case resources_check (last_occurrence ''resources'' content)
                  (image_check (last_occurrence ''image'' content) v1) of
             None \<Rightarrow> None
           | Some v3 \<Rightarrow> Some (v3, names1)))"

definition container_rule :: "Node \<Rightarrow> names \<Rightarrow> Validator \<Rightarrow> (Validator \<times> names) option" where
  "container_rule node names v =
     (case inline_checks (Content node) v of
        None \<Rightarrow> None
      | Some v0 \<Rightarrow> checks_after_scan (Content node) names v0)"

text \<open>
  The fixed order of the validator that collects the fields first: name, image and
  resources, then ports, then the readiness probe, then the liveness probe, each on the
  last value written for its key.
\<close>

definition optional_check :: "(Node \<Rightarrow> Validator \<Rightarrow> Validator option) \<Rightarrow> Node option \<Rightarrow> Validator \<Rightarrow> Validator option" where
  "optional_check check n v = (case n of None \<Rightarrow> Some v | Some node \<Rightarrow> check node v)"

definition fixed_order_rule :: "Node \<Rightarrow> names \<Rightarrow> Validator \<Rightarrow> (Validator \<times> names) option" where
  "fixed_order_rule node names v =
     (if odd (length (Content node)) then None
      else (case name_check (last_occurrence ''name'' (Content node)) names v of
              (v1, names1) \<Rightarrow>
                (case (case last_occurrence ''resources'' (Content node) of
                         None \<Rightarrow> Some (Errorf 0 ''container resources is required''
                                          (image_check (last_occurrence ''image'' (Content node)) v1))
                       | Some n \<Rightarrow> validateResources_top n
                                     (image_check (last_occurrence ''image'' (Content node)) v1)) of
                   None \<Rightarrow> None
                 | Some v3 \<Rightarrow>
                     (case optional_check validatePorts_top
                             (last_occurrence ''ports'' (Content node)) v3 of
                        None \<Rightarrow> None
                      | Some v4 \<Rightarrow>
                          (case optional_check validateProbe_top
                                  (last_occurrence ''readinessProbe'' (Content node)) v4 of
                             None \<Rightarrow> None
                           | Some v5 \<Rightarrow>
                               (case optional_check validateProbe_top
                                       (last_occurrence ''livenessProbe'' (Content node)) v5 of
                                  None \<Rightarrow> None
                                | Some v6 \<Rightarrow> Some (v6, names1)))))))"

text \<open>The message for a container name that was seen before.\<close>

definition not_unique_message :: "string \<Rightarrow> string" where
  "not_unique_message name = ''container name '' @ quoted name @ '' is not unique''"

text \<open>
  The keys of a mapping in document order, and the report for a key of a
  resource-requirement set that is neither \<open>cpu\<close> nor \<open>memory\<close>.
\<close>

fun mapping_keys :: "Node list \<Rightarrow> Node list" where
  "mapping_keys (key # value # rest) = key # mapping_keys rest"
| "mapping_keys _ = []"

definition other_resource_keys :: "Node list \<Rightarrow> Node list" where
  "other_resource_keys content =
     filter (\<lambda>key. Value key \<noteq> ''cpu'' \<and> Value key \<noteq> ''memory'') (mapping_keys content)"

definition unsupported_message :: "string \<Rightarrow> string \<Rightarrow> string" where
  "unsupported_message prefix key = prefix @ ''.'' @ key @ '' has unsupported resource type''"

definition unsupported_error :: "string \<Rightarrow> bool" where
  "unsupported_error e = ends_with '' has unsupported resource type'' e"

text \<open>A diagnostic of the package-level list that is about the field \<open>apiVersion\<close>.\<close>

definition about_apiVersion :: "ValidationError \<Rightarrow> bool" where
  "about_apiVersion e = (take 10 (Message e) = ''apiVersion'')"

definition elsewhere :: "ValidationError \<Rightarrow> bool" where
  "elsewhere e = (\<not> about_apiVersion e)"

section \<open>Basic facts\<close>

lemma Errorf_eq: "Errorf line msg v = v\<lparr>errors := errors v @ [diagnostic (filename v) line msg]\<rparr>"
  by (simp add: Errorf_def diagnostic_def)

lemma filename_Errorf [simp]: "filename (Errorf line msg v) = filename v"
  by (simp add: Errorf_eq)

lemma errors_Errorf [simp]: "errors (Errorf line msg v) = errors v @ [diagnostic (filename v) line msg]"
  by (simp add: Errorf_eq)

lemma last_occurrence_simps [simp]:
  "last_occurrence k [] = None"
  "last_occurrence k [key] = None"
  "last_occurrence k (key # value # rest) =
     (case last_occurrence k rest of
        Some n \<Rightarrow> Some n
      | None \<Rightarrow> if Value key = k then Some value else None)"
  by (auto simp add: last_occurrence_def split: list.splits)

lemma parseMapping_loop_lookup:
  "parseMapping_loop cs result k =
     (case last_occurrence k cs of Some n \<Rightarrow> Some n | None \<Rightarrow> result k)"
  by (induction cs result rule: parseMapping_loop.induct)
     (simp_all del: fun_upd_apply add: fun_upd_same fun_upd_other split: option.split)

text \<open>
  \<open>Atoi\<close> on some texts: a digit run that leaves the unsigned 64-bit range is a range
  error even when a byte that is no digit follows it; a byte that is no digit before that
  point is a syntax error.
\<close>

lemma Atoi_examples:
  "Atoi ''8080'' = (8080, None)"
  "Atoi ''-1'' = (- 1, None)"
  "Atoi ''+7'' = (7, None)"
  "Atoi [] = (0, Some ErrSyntax)"
  "Atoi ''-'' = (0, Some ErrSyntax)"
  "Atoi ''12x'' = (0, Some ErrSyntax)"
  "Atoi ''9223372036854775807'' = (9223372036854775807, None)"
  "Atoi ''9223372036854775808'' = (maxInt, Some ErrRange)"
  "Atoi ''-9223372036854775808'' = (minInt, None)"
  "Atoi ''9223372036854775808x'' = (0, Some ErrSyntax)"
  "Atoi ''99999999999999999999x'' = (maxInt, Some ErrRange)"
  "Atoi ''-99999999999999999999x'' = (minInt, Some ErrRange)"
  by (simp_all add: Atoi_def ParseInt_def ParseUint_def is_digit_def digit_val_def
        maxUint64_def maxInt_def minInt_def)

section \<open>The matcher decides membership\<close>

lemma conc_Nil_iff: "[] \<in> conc A B \<longleftrightarrow> [] \<in> A \<and> [] \<in> B"
  by (auto simp add: conc_def)

lemma conc_Cons_iff:
  "c # w \<in> conc A B \<longleftrightarrow>
     ([] \<in> A \<and> c # w \<in> B) \<or> (\<exists>u v. w = u @ v \<and> c # u \<in> A \<and> v \<in> B)"
  by (auto simp add: conc_def Cons_eq_append_conv)

lemma star_Cons_split:
  assumes "x \<in> star A" and "x = c # w"
  shows "\<exists>u v. w = u @ v \<and> c # u \<in> A \<and> v \<in> star A"
  using assms
proof (induction arbitrary: c w rule: star.induct)
  case star_empty
  then show ?case by simp
next
  case (star_more y ys)
  show ?case
  proof (cases y)
    case Nil
    with star_more show ?thesis by simp
  next
    case (Cons d u)
    with star_more.prems have "d = c" and "w = u @ ys" by simp_all
    with Cons star_more.hyps show ?thesis by blast
  qed
qed

lemma star_Cons_iff:
  "c # w \<in> star A \<longleftrightarrow> (\<exists>u v. w = u @ v \<and> c # u \<in> A \<and> v \<in> star A)"
proof
  assume "c # w \<in> star A"
  then show "\<exists>u v. w = u @ v \<and> c # u \<in> A \<and> v \<in> star A"
    by (rule star_Cons_split) simp
next
  assume "\<exists>u v. w = u @ v \<and> c # u \<in> A \<and> v \<in> star A"
  then obtain u v where "w = u @ v" "c # u \<in> A" "v \<in> star A" by blast
  then show "c # w \<in> star A"
    using star_more [of "c # u" A v] by simp
qed

lemma nullable_iff: "nullable r \<longleftrightarrow> [] \<in> lang r"
  by (induction r) (auto simp add: conc_Nil_iff intro: star_empty)

lemma lang_deriv: "w \<in> lang (deriv c r) \<longleftrightarrow> c # w \<in> lang r"
proof (induction r arbitrary: w)
  case (Seq r s)
  then show ?case
    by (auto simp add: conc_Cons_iff nullable_iff) (auto simp add: conc_def)
next
  case (Star r)
  then show ?case
    by (auto simp add: star_Cons_iff conc_def)
qed auto

lemma lang_derivs: "w \<in> lang (derivs s r) \<longleftrightarrow> s @ w \<in> lang r"
  by (induction s arbitrary: r) (simp_all add: lang_deriv)

lemma MatchString_iff: "MatchString r s \<longleftrightarrow> s \<in> lang r"
  by (simp add: MatchString_def nullable_iff lang_derivs)

section \<open>The identifier pattern in words\<close>

lemma conc_assoc: "conc (conc A B) C = conc A (conc B C)"
  by (auto simp add: conc_def) (metis append.assoc)+

lemma conc_Un_left: "conc (A \<union> B) C = conc A C \<union> conc B C"
  by (auto simp add: conc_def)

lemma conc_eps_left: "conc {[]} B = B"
  by (auto simp add: conc_def)

lemma star_unfold: "star A = {[]} \<union> conc A (star A)"
proof
  show "star A \<subseteq> {[]} \<union> conc A (star A)"
  proof
    fix x assume "x \<in> star A"
    then show "x \<in> {[]} \<union> conc A (star A)"
      by (cases rule: star.cases) (auto simp add: conc_def)
  qed
  show "{[]} \<union> conc A (star A) \<subseteq> star A"
    by (auto simp add: conc_def intro: star_empty star_more)
qed

lemma class_conc_iff:
  "w \<in> conc {[c] | c. P c} X \<longleftrightarrow> (\<exists>c w'. w = c # w' \<and> P c \<and> w' \<in> X)"
proof
  assume "w \<in> conc {[c] | c. P c} X"
  then show "\<exists>c w'. w = c # w' \<and> P c \<and> w' \<in> X"
    by (auto simp add: conc_def)
next
  assume "\<exists>c w'. w = c # w' \<and> P c \<and> w' \<in> X"
  then obtain c w' where w: "w = c # w'" and c: "P c" and w': "w' \<in> X" by auto
  have "[c] \<in> {[c] | c. P c}" using c by simp
  moreover have "w = [c] @ w'" using w by simp
  ultimately have "\<exists>xs ys. w = xs @ ys \<and> xs \<in> {[c] | c. P c} \<and> ys \<in> X"
    using w' by (intro exI conjI)
  then show "w \<in> conc {[c] | c. P c} X"
    by (simp add: conc_def)
qed

lemma not_lower_underscore: "\<not> is_lower CHR ''_''"
  by (simp add: is_lower_def in_class_def)

lemma lang_lower: "lang lower = {[c] | c. is_lower c}"
  by (simp add: lower_def is_lower_def)

lemma in_class_single: "in_class [(c, c)] d \<longleftrightarrow> d = c"
  by (auto simp add: in_class_def)

lemma lang_underscore: "lang (Chr CHR ''_'') = {[CHR ''_'']}"
  by (simp add: Chr_def in_class_single)

lemma single_conc_iff: "w \<in> conc {[c]} X \<longleftrightarrow> (\<exists>w'. w = c # w' \<and> w' \<in> X)"
  by (auto simp add: conc_def)

lemma snake_lang_scan:
  fixes L U T A B :: "string set"
  assumes L: "L = {[c] | c. is_lower c}" and U: "U = {[CHR ''_'']}"
    and T: "T = star (conc U (conc L (star L)))"
    and A: "A = conc (conc L (star L)) T" and B: "B = conc (star L) T"
  shows "(w \<in> A \<longleftrightarrow> snake_scan False w) \<and> (w \<in> B \<longleftrightarrow> snake_scan True w)"
proof -
  have A_eq: "A = conc L B"
    by (simp only: A B conc_assoc)
  have T_eq: "T = {[]} \<union> conc U A"
  proof -
    have "T = {[]} \<union> conc (conc U (conc L (star L))) T"
      unfolding T by (rule star_unfold)
    also have "conc (conc U (conc L (star L))) T = conc U A"
      by (simp only: A conc_assoc)
    finally show ?thesis .
  qed
  have B_unfold: "conc (star L) T = T \<union> conc L B"
  proof -
    have "conc (star L) T = conc ({[]} \<union> conc L (star L)) T"
      by (subst star_unfold) (rule refl)
    also have "\<dots> = conc {[]} T \<union> conc (conc L (star L)) T"
      by (rule conc_Un_left)
    also have "\<dots> = T \<union> conc L B"
      by (simp only: conc_eps_left conc_assoc B)
    finally show ?thesis .
  qed
  have B_eq: "B = T \<union> conc L B"
    by (subst (1) B) (rule B_unfold)
  have A_Nil: "[] \<notin> A"
    by (subst A_eq) (simp add: L class_conc_iff)
  have T_Nil: "[] \<in> T"
    by (subst T_eq) simp
  have B_Nil: "[] \<in> B"
    by (subst B_eq) (simp add: T_Nil)
  have A_Cons: "c # u \<in> A \<longleftrightarrow> is_lower c \<and> u \<in> B" for c u
    by (subst A_eq) (simp add: L class_conc_iff)
  have T_Cons: "c # u \<in> T \<longleftrightarrow> c = CHR ''_'' \<and> u \<in> A" for c u
    by (subst T_eq) (auto simp add: U single_conc_iff)
  have B_Cons: "c # u \<in> B \<longleftrightarrow> (c = CHR ''_'' \<and> u \<in> A) \<or> (is_lower c \<and> u \<in> B)" for c u
    by (subst B_eq) (simp add: L class_conc_iff T_Cons)
  show ?thesis
    by (induction w) (auto simp add: A_Nil B_Nil A_Cons B_Cons not_lower_underscore)
qed

lemma snakeCaseRegex_scan: "MatchString snakeCaseRegex s \<longleftrightarrow> snake_scan False s"
  using snake_lang_scan [OF lang_lower [unfolded lower_def] lang_underscore refl refl refl, of s]
  by (simp add: MatchString_iff snakeCaseRegex_def Plus_def lower_def)

lemma snake_scan_iff:
  "snake_scan b s \<longleftrightarrow>
     list_all (\<lambda>c. is_lower c \<or> c = CHR ''_'') s \<and> \<not> doubled_underscore s
     \<and> (if s = [] then b else (hd s = CHR ''_'' \<longrightarrow> b) \<and> last s \<noteq> CHR ''_'')"
proof (induction s arbitrary: b)
  case Nil
  then show ?case by simp
next
  case (Cons c cs)
  show ?case
  proof (cases cs)
    case Nil
    then show ?thesis by (auto simp add: not_lower_underscore)
  next
    case (Cons d ds)
    with Cons.IH [of True] Cons.IH [of False] show ?thesis
      by (auto simp add: not_lower_underscore)
  qed
qed

lemma snakeCaseRegex_iff: "MatchString snakeCaseRegex s \<longleftrightarrow> snake_case s"
  by (auto simp add: snakeCaseRegex_scan snake_scan_iff snake_case_def)

lemma star_class_iff: "w \<in> star {[c] | c. P c} \<longleftrightarrow> list_all P w"
proof (induction w)
  case Nil
  show ?case by (simp add: star_empty)
next
  case (Cons a w)
  have "a # w \<in> star {[c] | c. P c} \<longleftrightarrow> a # w \<in> conc {[c] | c. P c} (star {[c] | c. P c})"
    by (subst star_unfold) simp
  then show ?case
    by (simp add: class_conc_iff Cons.IH)
qed

lemma MatchString_Plus_Class:
  "MatchString (Plus (Class rs)) s \<longleftrightarrow> s \<noteq> [] \<and> list_all (in_class rs) s"
proof -
  have "s \<in> conc {[c] | c. in_class rs c} (star {[c] | c. in_class rs c})
          \<longleftrightarrow> s \<noteq> [] \<and> list_all (in_class rs) s"
    by (cases s) (auto simp add: class_conc_iff star_class_iff)
  then show ?thesis
    by (simp add: MatchString_iff Plus_def)
qed

lemma in_class_Cons: "in_class (r # rs) c \<longleftrightarrow> in_class [r] c \<or> in_class rs c"
  by (simp add: in_class_def)

lemma in_class_digits: "in_class [(CHR ''0'', CHR ''9'')] c \<longleftrightarrow> is_digit c"
  by (simp add: in_class_def is_digit_def)

section \<open>What a check appends does not depend on the list so far\<close>

lemma filename_shift [simp]: "filename (shift es v) = filename v"
  by (simp add: shift_def)

lemma errors_shift [simp]: "errors (shift es v) = es @ errors v"
  by (simp add: shift_def)

lemma shift_Errorf [simp]: "Errorf line msg (shift es v) = shift es (Errorf line msg v)"
  by (simp add: Errorf_def shift_def)

lemma shift_errors_self: "shift (errors v) (v\<lparr>errors := []\<rparr>) = v"
  by (simp add: shift_def)

lemma shift_validateAPIVersion [simp]:
  "validateAPIVersion node (shift es v) = shift es (validateAPIVersion node v)"
  by (simp add: validateAPIVersion_def)

lemma shift_validateKind [simp]:
  "validateKind node (shift es v) = shift es (validateKind node v)"
  by (simp add: validateKind_def)

lemma shift_validateName [simp]:
  "validateName node (shift es v) = shift es (validateName node v)"
  by (simp add: validateName_def)

lemma shift_validateOS [simp]:
  "validateOS node (shift es v) = shift es (validateOS node v)"
  by (simp add: validateOS_def)

lemma shift_validateImage [simp]:
  "validateImage node (shift es v) = shift es (validateImage node v)"
  by (simp add: validateImage_def)

lemma shift_validateCPU [simp]:
  "validateCPU node (shift es v) = shift es (validateCPU node v)"
  by (simp add: validateCPU_def)

lemma shift_validateMemory [simp]:
  "validateMemory node prefix (shift es v) = shift es (validateMemory node prefix v)"
  by (simp add: validateMemory_def)

lemma shift_validateContainerPort [simp]:
  "validateContainerPort node (shift es v) = shift es (validateContainerPort node v)"
  by (simp add: validateContainerPort_def split: prod.split option.split)

lemma shift_validateProtocol [simp]:
  "validateProtocol node (shift es v) = shift es (validateProtocol node v)"
  by (simp add: validateProtocol_def)

lemma shift_validatePath [simp]:
  "validatePath node (shift es v) = shift es (validatePath node v)"
  by (simp add: validatePath_def)

lemma shift_validateProbePort [simp]:
  "validateProbePort node (shift es v) = shift es (validateProbePort node v)"
  by (simp add: validateProbePort_def split: prod.split option.split)

lemma shift_validateContainerName [simp]:
  "validateContainerName node names (shift es v) =
     map_prod (shift es) id (validateContainerName node names v)"
  by (simp add: validateContainerName_def)

lemma shift_validateLabels_loop [simp]:
  "validateLabels_loop cs (shift es v) = map_option (shift es) (validateLabels_loop cs v)"
  by (induction cs arbitrary: v rule: induct_list012) (simp_all add: Let_def)

lemma shift_validateLabels [simp]:
  "validateLabels node (shift es v) = map_option (shift es) (validateLabels node v)"
  by (simp add: validateLabels_def)

lemma shift_validateMetadata_loop [simp]:
  "validateMetadata_loop cs nameNode (shift es v) =
     map_option (map_prod id (shift es)) (validateMetadata_loop cs nameNode v)"
  by (induction cs arbitrary: nameNode v rule: induct_list012)
     (simp_all split: option.split)

lemma shift_validateMetadata [simp]:
  "validateMetadata node (shift es v) = map_option (shift es) (validateMetadata node v)"
  by (simp add: validateMetadata_def split: option.split prod.split)

lemma shift_validateResourceRequirements_loop [simp]:
  "validateResourceRequirements_loop cs prefix (shift es v) =
     map_option (shift es) (validateResourceRequirements_loop cs prefix v)"
  by (induction cs arbitrary: prefix v rule: induct_list012) simp_all

lemma shift_validateResourceRequirements [simp]:
  "validateResourceRequirements node prefix (shift es v) =
     map_option (shift es) (validateResourceRequirements node prefix v)"
  by (simp add: validateResourceRequirements_def)

lemma shift_validateResources_loop [simp]:
  "validateResources_loop cs (shift es v) = map_option (shift es) (validateResources_loop cs v)"
  by (induction cs arbitrary: v rule: induct_list012) (simp_all split: option.split)

lemma shift_validateResources [simp]:
  "validateResources node (shift es v) = map_option (shift es) (validateResources node v)"
  by (simp add: validateResources_def)

lemma shift_validatePorts_fields [simp]:
  "validatePorts_fields cs p (shift es v) =
     map_option (map_prod id (shift es)) (validatePorts_fields cs p v)"
  by (induction cs arbitrary: p v rule: induct_list012) simp_all

lemma shift_validatePorts_loop [simp]:
  "validatePorts_loop cs (shift es v) = map_option (shift es) (validatePorts_loop cs v)"
  by (induction cs arbitrary: v) (simp_all split: option.split prod.split)

lemma shift_validatePorts [simp]:
  "validatePorts node (shift es v) = map_option (shift es) (validatePorts node v)"
  by (simp add: validatePorts_def)

lemma shift_validateHTTPGetAction [simp]:
  "validateHTTPGetAction node (shift es v) = map_option (shift es) (validateHTTPGetAction node v)"
  by (simp add: validateHTTPGetAction_def Let_def split: option.split prod.split)

lemma shift_validateProbe [simp]:
  "validateProbe node (shift es v) = map_option (shift es) (validateProbe node v)"
  by (simp add: validateProbe_def split: option.split)

lemma shift_validateContainer_loop [simp]:
  "validateContainer_loop cs n i r (shift es v) =
     map_option (map_prod id (map_prod id (map_prod id (shift es)))) (validateContainer_loop cs n i r v)"
  by (induction cs arbitrary: n i r v rule: induct_list012) (simp_all split: option.split)

lemma shift_validateContainer_checks [simp]:
  "validateContainer_checks n i r names (shift es v) =
     map_option (map_prod (shift es) id) (validateContainer_checks n i r names v)"
  by (simp add: validateContainer_checks_def Let_def split_beta split: option.split)

lemma shift_validateContainer [simp]:
  "validateContainer node names (shift es v) =
     map_option (map_prod (shift es) id) (validateContainer node names v)"
  by (simp add: validateContainer_def split: option.split prod.split)

lemma shift_validateContainers_loop [simp]:
  "validateContainers_loop cs names (shift es v) =
     map_option (shift es) (validateContainers_loop cs names v)"
  by (induction cs arbitrary: names v)
     (simp_all split: option.split prod.split)

lemma shift_validateContainers [simp]:
  "validateContainers node (shift es v) = map_option (shift es) (validateContainers node v)"
  by (simp add: validateContainers_def)

lemma shift_validateSpec_loop [simp]:
  "validateSpec_loop cs (shift es v) = map_option (shift es) (validateSpec_loop cs v)"
  by (induction cs arbitrary: v rule: induct_list012) (simp_all split: option.split)

lemma shift_validateSpec [simp]:
  "validateSpec node (shift es v) = map_option (shift es) (validateSpec node v)"
  by (simp add: validateSpec_def)

lemma shift_validateDocument_loop [simp]:
  "validateDocument_loop cs (shift es v) = map_option (shift es) (validateDocument_loop cs v)"
  by (induction cs arbitrary: v rule: induct_list012) (simp_all split: option.split)

lemma shift_validateDocument [simp]:
  "validateDocument node (shift es v) = map_option (shift es) (validateDocument node v)"
  by (simp add: validateDocument_def)

lemma shift_Validate [simp]:
  "Validate root (shift es v) = map_option (shift es) (Validate root v)"
  by (simp add: Validate_def split: list.split)

subsection \<open>The same for the package-level list\<close>

lemma frame_validateMetadata_pod [simp]:
  "validateMetadata_pod node fp (es @ errs) = es @ validateMetadata_pod node fp errs"
  by (simp add: validateMetadata_pod_def Let_def)

lemma frame_validateOS_pod [simp]:
  "validateOS_pod node fp (es @ errs) = es @ validateOS_pod node fp errs"
  by (simp add: validateOS_pod_def Let_def)

lemma frame_validateImage_pod [simp]:
  "validateImage_pod img line fp (es @ errs) = es @ validateImage_pod img line fp errs"
  by (simp add: validateImage_pod_def)

lemma frame_validatePorts_pod_loop [simp]:
  "validatePorts_pod_loop cs fp (es @ errs) = es @ validatePorts_pod_loop cs fp errs"
  by (induction cs arbitrary: errs) (simp_all add: Let_def)

lemma frame_validatePorts_pod [simp]:
  "validatePorts_pod node fp (es @ errs) = es @ validatePorts_pod node fp errs"
  by (simp add: validatePorts_pod_def)

lemma frame_validateHTTPGetAction_pod [simp]:
  "validateHTTPGetAction_pod node pn fp (es @ errs) = es @ validateHTTPGetAction_pod node pn fp errs"
  by (simp add: validateHTTPGetAction_pod_def Let_def)

lemma frame_validateProbe_pod [simp]:
  "validateProbe_pod node pn fp (es @ errs) = es @ validateProbe_pod node pn fp errs"
  by (simp add: validateProbe_pod_def Let_def split: option.split)

lemma frame_validateResourceSpec [simp]:
  "validateResourceSpec node sn fp (es @ errs) = es @ validateResourceSpec node sn fp errs"
  by (simp add: validateResourceSpec_def Let_def)

lemma frame_validateResources_pod [simp]:
  "validateResources_pod node fp (es @ errs) = es @ validateResources_pod node fp errs"
  by (simp add: validateResources_pod_def Let_def split: option.split)

lemma frame_container_name_pod [simp]:
  "container_name_pod container c fp names (es @ errs) =
     map_prod ((@) es) id (container_name_pod container c fp names errs)"
  by (simp add: container_name_pod_def Let_def)

lemma frame_container_image_pod [simp]:
  "container_image_pod container c fp (es @ errs) = es @ container_image_pod container c fp errs"
  by (simp add: container_image_pod_def)

lemma frame_container_ports_pod [simp]:
  "container_ports_pod container fp (es @ errs) = es @ container_ports_pod container fp errs"
  by (simp add: container_ports_pod_def split: option.split)

lemma frame_container_probes_pod [simp]:
  "container_probes_pod container fp (es @ errs) = es @ container_probes_pod container fp errs"
  by (simp add: container_probes_pod_def Let_def split: option.split)

lemma frame_container_resources_pod [simp]:
  "container_resources_pod container c fp (es @ errs) = es @ container_resources_pod container c fp errs"
  by (simp add: container_resources_pod_def split: option.split)

lemma frame_validateContainers_pod_body [simp]:
  "validateContainers_pod_body c fp names (es @ errs) =
     map_prod ((@) es) id (validateContainers_pod_body c fp names errs)"
  by (simp add: validateContainers_pod_body_def Let_def split_beta)

lemma frame_validateContainers_pod_loop [simp]:
  "validateContainers_pod_loop cs fp names (es @ errs) =
     es @ validateContainers_pod_loop cs fp names errs"
  by (induction cs arbitrary: names errs) (simp_all add: split_beta)

lemma frame_validateContainers_pod [simp]:
  "validateContainers_pod node fp (es @ errs) = es @ validateContainers_pod node fp errs"
  by (simp add: validateContainers_pod_def)

lemma frame_validateSpec_pod [simp]:
  "validateSpec_pod node fp (es @ errs) = es @ validateSpec_pod node fp errs"
  by (simp add: validateSpec_pod_def Let_def split: option.split)

lemma frame_pod_apiVersion [simp]:
  "pod_apiVersion pod fp (es @ errs) = es @ pod_apiVersion pod fp errs"
  by (simp add: pod_apiVersion_def Let_def)

lemma frame_pod_kind [simp]:
  "pod_kind pod fp (es @ errs) = es @ pod_kind pod fp errs"
  by (simp add: pod_kind_def Let_def)

lemma frame_pod_metadata [simp]:
  "pod_metadata pod fp (es @ errs) = es @ pod_metadata pod fp errs"
  by (simp add: pod_metadata_def split: option.split)

lemma frame_pod_spec [simp]:
  "pod_spec pod fp (es @ errs) = es @ pod_spec pod fp errs"
  by (simp add: pod_spec_def split: option.split)

lemma frame_validatePod [simp]:
  "validatePod root fp (es @ errs) = es @ validatePod root fp errs"
  by (simp add: validatePod_def Let_def)

lemma validatePod_appends: "validatePod root fp errs = errs @ main_errors fp root"
  using frame_validatePod [of root fp errs "[]"] by (simp add: main_errors_def)

section \<open>Which diagnostics a check can append\<close>

lemma adds_refl [simp]: "adds Q v v"
  by (simp add: adds_def appended_def)

lemma adds_append_iff:
  "adds Q v w \<longleftrightarrow> filename w = filename v \<and> (\<exists>ds. errors w = errors v @ ds \<and> list_all Q ds)"
  by (auto simp add: adds_def appended_def) (metis append_take_drop_id)

lemma adds_trans: "adds Q u v \<Longrightarrow> adds Q v w \<Longrightarrow> adds Q u w"
  by (auto simp add: adds_append_iff)

lemma adds_Errorf: "adds Q u v \<Longrightarrow> Q (diagnostic (filename v) l m) \<Longrightarrow> adds Q u (Errorf l m v)"
  by (auto simp add: adds_append_iff)

lemma appended_adds: "adds Q v w \<Longrightarrow> errors w = errors v @ appended v w"
  by (auto simp add: adds_append_iff appended_def)

lemma ends_with_last: "ends_with suf s \<Longrightarrow> suf \<noteq> [] \<Longrightarrow> last s = last suf"
  by (metis append_take_drop_id ends_with_def last_appendR)

lemma two_long:
  assumes "2 \<le> length m"
  shows "m \<noteq> []" and "butlast m \<noteq> []"
  using assms by (induction m rule: induct_list012) auto

lemma ends_with_butlast:
  "ends_with suf s \<Longrightarrow> 2 \<le> length suf \<Longrightarrow> last (butlast s) = last (butlast suf)"
proof -
  assume e: "ends_with suf s" and l: "2 \<le> length suf"
  then obtain p where s: "s = p @ suf"
    by (metis append_take_drop_id ends_with_def)
  from l have "suf \<noteq> []" "butlast suf \<noteq> []" by (rule two_long)+
  then show ?thesis by (simp add: s butlast_append)
qed

lemma diagnostic_last: "m \<noteq> [] \<Longrightarrow> last (diagnostic f l m) = last m"
  by (simp add: diagnostic_def)

lemma diagnostic_butlast_last:
  "2 \<le> length m \<Longrightarrow> last (butlast (diagnostic f l m)) = last (butlast m)"
proof -
  assume l: "2 \<le> length m"
  then have "m \<noteq> []" "butlast m \<noteq> []" by (rule two_long)+
  then show ?thesis by (simp add: diagnostic_def butlast_append)
qed

lemma plain_not_uniqueness: "plain m \<Longrightarrow> \<not> uniqueness_error (diagnostic f l m)"
proof
  assume p: "plain m" and u: "uniqueness_error (diagnostic f l m)"
  from p have l: "2 \<le> length m" and ne: "m \<noteq> []" by (auto simp add: plain_def)
  from u have e: "ends_with '' is not unique'' (diagnostic f l m)"
    by (simp add: uniqueness_error_def)
  have "last (diagnostic f l m) = CHR ''e''"
    using ends_with_last [OF e] by simp
  moreover have "last (butlast (diagnostic f l m)) = CHR ''u''"
    using ends_with_butlast [OF e] by simp
  ultimately show False
    using p l ne by (simp add: plain_def diagnostic_last diagnostic_butlast_last)
qed

lemma plain_quoted [simp]: "plain (m @ quoted s)"
  by (simp add: plain_def quoted_def)

lemma plain_lits [simp]:
  "plain ''image must be string''"
  "plain (prefix @ ''.memory must be string'')"
  "plain ''cpu must be integer''"
  "plain ''cpu must be int''"
  "plain ''containerPort must be integer''"
  "plain ''containerPort value out of range''"
  "plain ''protocol must be string''"
  "plain ''path must be string''"
  "plain ''path must be absolute path''"
  "plain ''port must be integer''"
  "plain ''port value out of range''"
  "plain (prefix @ '' must be mapping'')"
  "plain ''resources must be mapping''"
  "plain ''port must be mapping''"
  "plain ''containerPort is required''"
  "plain ''ports must be sequence''"
  "plain ''httpGet must be mapping''"
  "plain ''path is required''"
  "plain ''port is required''"
  "plain ''probe must be mapping''"
  "plain ''httpGet is required''"
  "plain ''container name is required''"
  "plain ''container image is required''"
  "plain ''container resources is required''"
  "plain ''container name must be string''"
  "plain ''name is required''"
  "plain ''container must be mapping''"
  by (simp_all add: plain_def butlast_append)

lemma quiet_refl [simp]: "quiet v v"
  by (simp add: quiet_def)

lemma quiet_trans: "quiet u v \<Longrightarrow> quiet v w \<Longrightarrow> quiet u w"
  unfolding quiet_def by (rule adds_trans)

lemma quiet_Errorf [simp]: "plain m \<Longrightarrow> quiet u v \<Longrightarrow> quiet u (Errorf l m v)"
  unfolding quiet_def by (rule adds_Errorf) (simp_all add: plain_not_uniqueness)

lemma plain_append [simp]: "plain m \<Longrightarrow> plain (p @ m)"
proof -
  assume p: "plain m"
  then have "2 \<le> length m" by (simp add: plain_def)
  then have "m \<noteq> []" "butlast m \<noteq> []" by (rule two_long)+
  with p show ?thesis by (simp add: plain_def butlast_append)
qed

lemma plain_Cons [simp]: "plain m \<Longrightarrow> plain (c # m)"
  using plain_append [of m "[c]"] by simp

lemma plain_quoted_only [simp]: "plain (quoted s)"
  using plain_quoted [of "[]" s] by simp

lemma quiet_validateImage [simp]: "quiet u v \<Longrightarrow> quiet u (validateImage node v)"
  by (simp add: validateImage_def)

lemma quiet_validateCPU [simp]: "quiet u v \<Longrightarrow> quiet u (validateCPU node v)"
  by (simp add: validateCPU_def)

lemma quiet_validateMemory [simp]: "quiet u v \<Longrightarrow> quiet u (validateMemory node prefix v)"
  by (simp add: validateMemory_def)

lemma quiet_validateContainerPort [simp]: "quiet u v \<Longrightarrow> quiet u (validateContainerPort node v)"
  by (simp add: validateContainerPort_def split: prod.split option.split)

lemma quiet_validateProtocol [simp]: "quiet u v \<Longrightarrow> quiet u (validateProtocol node v)"
  by (simp add: validateProtocol_def)

lemma quiet_validatePath [simp]: "quiet u v \<Longrightarrow> quiet u (validatePath node v)"
  by (simp add: validatePath_def)

lemma quiet_validateProbePort [simp]: "quiet u v \<Longrightarrow> quiet u (validateProbePort node v)"
  by (simp add: validateProbePort_def split: prod.split option.split)

lemma quiet_validateResourceRequirements_loop:
  "validateResourceRequirements_loop cs prefix v = Some w \<Longrightarrow> quiet u v \<Longrightarrow> quiet u w"
  by (induction cs arbitrary: v rule: induct_list012) (auto split: if_splits)

lemma quiet_validateResourceRequirements:
  "validateResourceRequirements node prefix v = Some w \<Longrightarrow> quiet u v \<Longrightarrow> quiet u w"
  by (auto simp add: validateResourceRequirements_def split: if_splits
        dest: quiet_validateResourceRequirements_loop)

lemma quiet_validateResources_loop:
  "validateResources_loop cs v = Some w \<Longrightarrow> quiet u v \<Longrightarrow> quiet u w"
  by (induction cs arbitrary: v rule: induct_list012)
     (auto split: if_splits option.splits dest: quiet_validateResourceRequirements)

lemma quiet_validateResources:
  "validateResources node v = Some w \<Longrightarrow> quiet u v \<Longrightarrow> quiet u w"
  by (auto simp add: validateResources_def split: if_splits dest: quiet_validateResources_loop)

lemma quiet_validatePorts_fields:
  "validatePorts_fields cs p v = Some (p', w) \<Longrightarrow> quiet u v \<Longrightarrow> quiet u w"
  by (induction cs arbitrary: p v rule: induct_list012) (auto split: if_splits)

lemma quiet_validatePorts_loop:
  "validatePorts_loop cs v = Some w \<Longrightarrow> quiet u v \<Longrightarrow> quiet u w"
proof (induction cs arbitrary: v)
  case Nil
  then show ?case by simp
next
  case (Cons portNode rest)
  show ?case
  proof (cases "Kind portNode \<noteq> MappingNode")
    case True
    with Cons.prems show ?thesis by (auto intro: Cons.IH)
  next
    case False
    with Cons.prems obtain p' v' where f: "validatePorts_fields (Content portNode) None v = Some (p', v')"
      by (auto split: option.splits)
    then have q: "quiet u v'" using Cons.prems(2) by (rule quiet_validatePorts_fields)
    from False f Cons.prems(1) show ?thesis
      by (cases p') (auto intro: Cons.IH simp add: q)
  qed
qed

lemma quiet_validatePorts:
  "validatePorts node v = Some w \<Longrightarrow> quiet u v \<Longrightarrow> quiet u w"
  by (auto simp add: validatePorts_def split: if_splits dest: quiet_validatePorts_loop)

lemma quiet_validateHTTPGetAction:
  "validateHTTPGetAction node v = Some w \<Longrightarrow> quiet u v \<Longrightarrow> quiet u w"
  by (auto simp add: validateHTTPGetAction_def Let_def split: if_splits option.splits)

lemma quiet_validateProbe:
  "validateProbe node v = Some w \<Longrightarrow> quiet u v \<Longrightarrow> quiet u w"
  by (auto simp add: validateProbe_def split: if_splits option.splits
        dest: quiet_validateHTTPGetAction)

lemma quiet_validateContainer_loop:
  "validateContainer_loop cs n i r v = Some (n', i', r', w) \<Longrightarrow> quiet u v \<Longrightarrow> quiet u w"
proof (induction cs arbitrary: n i r v rule: induct_list012)
  case 1
  then show ?case by simp
next
  case (2 x)
  then show ?case by simp
next
  case (3 key "value" rest)
  from "3.prems" show ?case
    by (auto split: if_splits option.splits
          dest: quiet_validatePorts quiet_validateProbe intro: "3.IH"(1))
qed

section \<open>The order of the checks on a container\<close>

lemma validateContainer_loop_inline:
  "validateContainer_loop cs n i r v =
     map_option (\<lambda>w. (case last_occurrence ''name'' cs of Some x \<Rightarrow> Some x | None \<Rightarrow> n,
                        case last_occurrence ''image'' cs of Some x \<Rightarrow> Some x | None \<Rightarrow> i,
                        case last_occurrence ''resources'' cs of Some x \<Rightarrow> Some x | None \<Rightarrow> r,
                        w))
       (inline_checks cs v)"
  by (induction cs arbitrary: n i r v rule: induct_list012) (simp_all split: option.split)

lemma case_option_id [simp]: "(case x of None \<Rightarrow> None | Some y \<Rightarrow> Some y) = x"
  by (cases x) simp_all

lemma validateContainer_checks_eq:
  "validateContainer_checks n i r names v0 =
     (case name_check n names v0 of
        (v1, names1) \<Rightarrow>
          (case resources_check r (image_check i v1) of
             None \<Rightarrow> None
           | Some v3 \<Rightarrow> Some (v3, names1)))"
  by (cases r)
     (simp_all add: validateContainer_checks_def name_check_def image_check_def resources_check_def
        Let_def)

lemma validateContainer_rule:
  "validateContainer node names v = container_rule node names v"
  by (cases "inline_checks (Content node) v")
     (simp_all add: validateContainer_def container_rule_def checks_after_scan_def
        validateContainer_loop_inline validateContainer_checks_eq)

lemma collect_fields_lookup:
  "collect_fields cs fs =
     (if odd (length cs) then None
      else Some (\<lambda>k. case last_occurrence k cs of Some n \<Rightarrow> Some n | None \<Rightarrow> fs k))"
proof (induction cs arbitrary: fs rule: induct_list012)
  case (3 key "value" rest)
  show ?case
    by (simp add: "3.IH"(1) fun_eq_iff split: option.split)
qed simp_all

lemma collect_fields_empty:
  "collect_fields cs Map.empty =
     (if odd (length cs) then None else Some (\<lambda>k. last_occurrence k cs))"
  by (simp add: collect_fields_lookup fun_eq_iff split: option.split)

lemma validateContainers_top_body_fixed_order:
  "validateContainers_top_body node names v = fixed_order_rule node names v"
  unfolding validateContainers_top_body_def fixed_order_rule_def collect_fields_empty
    name_check_def image_check_def optional_check_def Let_def
  by (cases "odd (length (Content node))") simp_all

section \<open>Repeated container names\<close>

lemma quiet_filter: "quiet v w \<Longrightarrow> filter uniqueness_error (appended v w) = []"
  by (simp add: quiet_def adds_def list_all_iff filter_empty_conv)

lemma quiet_adds_any: "quiet v w \<Longrightarrow> adds (\<lambda>e. True) v w"
  by (simp add: quiet_def adds_def list_all_iff)

lemma appended_trans:
  assumes "adds P u v" and "adds Q v w"
  shows "appended u w = appended u v @ appended v w"
proof -
  from assms obtain ds es where "errors v = errors u @ ds" "errors w = errors v @ es"
    by (auto simp add: adds_append_iff)
  then show ?thesis by (simp add: appended_def)
qed

lemma adds_any_trans: "adds (\<lambda>e. True) u v \<Longrightarrow> adds (\<lambda>e. True) v w \<Longrightarrow> adds (\<lambda>e. True) u w"
  by (rule adds_trans)

lemma adds_any_Errorf: "adds (\<lambda>e. True) v (Errorf l m v)"
  by (rule adds_Errorf) simp_all

lemma appended_Errorf: "appended v (Errorf l m v) = [diagnostic (filename v) l m]"
  by (simp add: appended_def)

lemma appended_self [simp]: "appended v v = []"
  by (simp add: appended_def)

lemma ends_with_suffix: "ends_with suf (p @ suf)"
  by (simp add: ends_with_def)

lemma uniqueness_error_diagnostic:
  "uniqueness_error (diagnostic f l (not_unique_message x))"
proof -
  have "diagnostic f l (not_unique_message x) =
          (if l > 0 then f @ '':'' @ itoa l @ '' container name '' @ quoted x
           else f @ '' container name '' @ quoted x) @ '' is not unique''"
    by (simp add: diagnostic_def not_unique_message_def)
  then show ?thesis
    unfolding uniqueness_error_def by (simp only: ends_with_suffix)
qed

lemma quiet_inline_checks: "inline_checks cs v = Some w \<Longrightarrow> quiet u v \<Longrightarrow> quiet u w"
  using quiet_validateContainer_loop [of cs None None None v _ _ _ w u]
  by (simp add: validateContainer_loop_inline)

lemma quiet_image_check [simp]: "quiet u v \<Longrightarrow> quiet u (image_check n v)"
  by (cases n) (simp_all add: image_check_def)

lemma quiet_resources_check: "resources_check n v = Some w \<Longrightarrow> quiet u v \<Longrightarrow> quiet u w"
  by (cases n) (auto simp add: resources_check_def dest: quiet_validateResources)

lemma match_web: "MatchString snakeCaseRegex ''web''"
  by (simp add: snakeCaseRegex_scan is_lower_def in_class_def)

lemma name_check_web:
  assumes "Kind n = ScalarNode" and "Value n = ''web''"
  shows "name_check (Some n) names v0 =
           (if seen names ''web''
            then (Errorf (Line n) (not_unique_message ''web'') v0, names)
            else (v0, names(''web'' \<mapsto> True)))"
  using assms by (simp add: name_check_def validateContainerName_def match_web not_unique_message_def)

text \<open>A container whose name is \<open>web\<close>, seen for the first time or seen again.\<close>

lemma container_rule_web:
  assumes n: "last_occurrence ''name'' (Content c) = Some n" "Kind n = ScalarNode" "Value n = ''web''"
    and r: "container_rule c names v = Some (w, names')"
  shows "seen names' ''web'' \<and> adds (\<lambda>e. True) v w \<and>
         filter uniqueness_error (appended v w) =
           (if seen names ''web''
            then [diagnostic (filename v) (Line n) (not_unique_message ''web'')]
            else [])"
proof -
  from r obtain v0 where i: "inline_checks (Content c) v = Some v0"
    and c: "checks_after_scan (Content c) names v0 = Some (w, names')"
    by (auto simp add: container_rule_def split: option.splits)
  from i have q0: "quiet v v0" by (rule quiet_inline_checks) simp
  then have f0: "filename v0 = filename v" by (simp add: quiet_def adds_def)
  define v1 where "v1 = fst (name_check (Some n) names v0)"
  define names1 where "names1 = snd (name_check (Some n) names v0)"
  from c n have rc: "resources_check (last_occurrence ''resources'' (Content c))
        (image_check (last_occurrence ''image'' (Content c)) v1) = Some w" and nm: "names' = names1"
    by (auto simp add: checks_after_scan_def v1_def names1_def split: option.splits prod.splits)
  have q1: "quiet v1 w"
    using rc by (rule quiet_resources_check) simp
  have a01: "adds (\<lambda>e. True) v0 v1"
    by (simp add: v1_def name_check_web n adds_any_Errorf)
  have a0w: "adds (\<lambda>e. True) v0 w"
    using a01 quiet_adds_any [OF q1] by (rule adds_trans)
  have avw: "adds (\<lambda>e. True) v w"
    using quiet_adds_any [OF q0] a0w by (rule adds_trans)
  have "appended v w = appended v v0 @ appended v0 v1 @ appended v1 w"
    by (simp add: appended_trans [OF quiet_adds_any [OF q0] a0w]
          appended_trans [OF a01 quiet_adds_any [OF q1]])
  then have "filter uniqueness_error (appended v w) = filter uniqueness_error (appended v0 v1)"
    by (simp add: quiet_filter [OF q0] quiet_filter [OF q1])
  also have "\<dots> = (if seen names ''web''
            then [diagnostic (filename v) (Line n) (not_unique_message ''web'')]
            else [])"
    by (simp add: v1_def name_check_web n appended_Errorf uniqueness_error_diagnostic f0)
  finally have "filter uniqueness_error (appended v w) =
           (if seen names ''web''
            then [diagnostic (filename v) (Line n) (not_unique_message ''web'')]
            else [])" .
  moreover have "seen names' ''web''"
    by (simp add: nm names1_def name_check_web n seen_def)
  ultimately show ?thesis using avw by simp
qed

section \<open>A manifest without \<open>apiVersion\<close>\<close>

text \<open>
  \<open>validatePod\<close> checks the four top-level fields one after the other, each check adding
  to the list the previous one left.
\<close>

lemma validatePod_blocks:
  assumes "Kind root = DocumentNode" and "Content root = doc # others" and "Kind doc = MappingNode"
  shows "main_errors filePath root =
           pod_apiVersion (parseMapping doc) filePath []
           @ pod_kind (parseMapping doc) filePath []
           @ pod_metadata (parseMapping doc) filePath []
           @ pod_spec (parseMapping doc) filePath []"
proof -
  let ?pod = "parseMapping doc"
  have "main_errors filePath root =
          pod_spec ?pod filePath (pod_metadata ?pod filePath
            (pod_kind ?pod filePath (pod_apiVersion ?pod filePath [])))"
    using assms by (simp add: main_errors_def validatePod_def Let_def)
  also have "\<dots> = pod_apiVersion ?pod filePath [] @ pod_kind ?pod filePath []
                 @ pod_metadata ?pod filePath [] @ pod_spec ?pod filePath []"
    using frame_pod_kind [of ?pod filePath "pod_apiVersion ?pod filePath []" "[]"]
      frame_pod_metadata [of ?pod filePath
        "pod_apiVersion ?pod filePath [] @ pod_kind ?pod filePath []" "[]"]
      frame_pod_spec [of ?pod filePath
        "pod_apiVersion ?pod filePath [] @ pod_kind ?pod filePath [] @ pod_metadata ?pod filePath []" "[]"]
    by simp
  finally show ?thesis .
qed

text \<open>
  The program of \<open>validatePod\<close> reports the missing field: when the root mapping has no
  key \<open>apiVersion\<close>, its list of diagnostics starts with \<open>apiVersion is required\<close> on
  line 0.
\<close>

lemma validatePod_reports_missing_apiVersion:
  assumes "Kind root = DocumentNode" and "Content root = doc # others" and "Kind doc = MappingNode"
    and "last_occurrence ''apiVersion'' (Content doc) = None"
  shows "main_errors filePath root =
           \<lparr>File = filePath, LineNo = 0, Message = ''apiVersion is required''\<rparr>
           # (pod_kind (parseMapping doc) filePath []
              @ pod_metadata (parseMapping doc) filePath []
              @ pod_spec (parseMapping doc) filePath [])"
    and "String \<lparr>File = filePath, LineNo = 0, Message = ''apiVersion is required''\<rparr> =
           filePath @ '' apiVersion is required''"
proof -
  have "parseMapping doc ''apiVersion'' = None"
    using assms by (simp add: parseMapping_def parseMapping_loop_lookup)
  then have "pod_apiVersion (parseMapping doc) filePath [] =
               [\<lparr>File = filePath, LineNo = 0, Message = ''apiVersion is required''\<rparr>]"
    by (simp add: pod_apiVersion_def hasField_def)
  then show "main_errors filePath root =
           \<lparr>File = filePath, LineNo = 0, Message = ''apiVersion is required''\<rparr>
           # (pod_kind (parseMapping doc) filePath []
              @ pod_metadata (parseMapping doc) filePath []
              @ pod_spec (parseMapping doc) filePath [])"
    using validatePod_blocks [OF assms(1-3), of filePath] by simp
  show "String \<lparr>File = filePath, LineNo = 0, Message = ''apiVersion is required''\<rparr> =
           filePath @ '' apiVersion is required''"
    by (simp add: String_def)
qed

text \<open>No check below the field \<open>apiVersion\<close> appends a diagnostic about that field.\<close>

lemma elsewhere_simps [simp]:
  "elsewhere \<lparr>File = f, LineNo = l, Message = CHR ''k'' # m\<rparr>"
  "elsewhere \<lparr>File = f, LineNo = l, Message = CHR ''m'' # m\<rparr>"
  "elsewhere \<lparr>File = f, LineNo = l, Message = CHR ''s'' # m\<rparr>"
  "elsewhere \<lparr>File = f, LineNo = l, Message = CHR ''o'' # m\<rparr>"
  "elsewhere \<lparr>File = f, LineNo = l, Message = CHR ''c'' # m\<rparr>"
  by (simp_all add: elsewhere_def about_apiVersion_def)

lemma elsewhere_validateMetadata_pod:
  "list_all elsewhere errs \<Longrightarrow> list_all elsewhere (validateMetadata_pod node fp errs)"
  by (simp add: validateMetadata_pod_def Let_def)

lemma elsewhere_validateOS_pod:
  "list_all elsewhere errs \<Longrightarrow> list_all elsewhere (validateOS_pod node fp errs)"
  by (simp add: validateOS_pod_def Let_def)

lemma elsewhere_validateImage_pod:
  "list_all elsewhere errs \<Longrightarrow> list_all elsewhere (validateImage_pod img line fp errs)"
  by (simp add: validateImage_pod_def)

lemma elsewhere_validatePorts_pod_loop:
  "list_all elsewhere errs \<Longrightarrow> list_all elsewhere (validatePorts_pod_loop cs fp errs)"
  by (induction cs arbitrary: errs) (simp_all add: Let_def)

lemma elsewhere_validatePorts_pod:
  "list_all elsewhere errs \<Longrightarrow> list_all elsewhere (validatePorts_pod node fp errs)"
  by (simp add: validatePorts_pod_def elsewhere_validatePorts_pod_loop)

lemma elsewhere_validateHTTPGetAction_pod:
  "list_all elsewhere errs \<Longrightarrow> list_all elsewhere (validateHTTPGetAction_pod node pn fp errs)"
  by (simp add: validateHTTPGetAction_pod_def Let_def)

lemma elsewhere_validateProbe_pod:
  "list_all elsewhere errs \<Longrightarrow> list_all elsewhere (validateProbe_pod node pn fp errs)"
  by (simp add: validateProbe_pod_def Let_def elsewhere_validateHTTPGetAction_pod split: option.split)

lemma elsewhere_validateResourceSpec:
  "list_all elsewhere errs \<Longrightarrow> list_all elsewhere (validateResourceSpec node sn fp errs)"
  by (simp add: validateResourceSpec_def Let_def)

lemma elsewhere_validateResources_pod:
  "list_all elsewhere errs \<Longrightarrow> list_all elsewhere (validateResources_pod node fp errs)"
  by (simp add: validateResources_pod_def Let_def elsewhere_validateResourceSpec split: option.split)

lemma elsewhere_container_name_pod:
  "list_all elsewhere errs \<Longrightarrow>
     list_all elsewhere (fst (container_name_pod container c fp names errs))"
  by (simp add: container_name_pod_def Let_def)

lemma elsewhere_container_image_pod:
  "list_all elsewhere errs \<Longrightarrow> list_all elsewhere (container_image_pod container c fp errs)"
  by (simp add: container_image_pod_def elsewhere_validateImage_pod)

lemma elsewhere_container_ports_pod:
  "list_all elsewhere errs \<Longrightarrow> list_all elsewhere (container_ports_pod container fp errs)"
  by (simp add: container_ports_pod_def elsewhere_validatePorts_pod split: option.split)

lemma elsewhere_container_probes_pod:
  "list_all elsewhere errs \<Longrightarrow> list_all elsewhere (container_probes_pod container fp errs)"
  by (simp add: container_probes_pod_def Let_def elsewhere_validateProbe_pod split: option.split)

lemma elsewhere_container_resources_pod:
  "list_all elsewhere errs \<Longrightarrow> list_all elsewhere (container_resources_pod container c fp errs)"
  by (simp add: container_resources_pod_def elsewhere_validateResources_pod split: option.split)

lemma elsewhere_validateContainers_pod_body:
  "list_all elsewhere errs \<Longrightarrow>
     list_all elsewhere (fst (validateContainers_pod_body c fp names errs))"
  by (simp add: validateContainers_pod_body_def Let_def split_beta
        elsewhere_container_name_pod elsewhere_container_image_pod elsewhere_container_ports_pod
        elsewhere_container_probes_pod elsewhere_container_resources_pod)

lemma elsewhere_validateContainers_pod_loop:
  "list_all elsewhere errs \<Longrightarrow> list_all elsewhere (validateContainers_pod_loop cs fp names errs)"
  by (induction cs arbitrary: names errs)
     (simp_all add: split_beta elsewhere_validateContainers_pod_body)

lemma elsewhere_validateContainers_pod:
  "list_all elsewhere errs \<Longrightarrow> list_all elsewhere (validateContainers_pod node fp errs)"
  by (simp add: validateContainers_pod_def elsewhere_validateContainers_pod_loop)

lemma elsewhere_validateSpec_pod:
  "list_all elsewhere errs \<Longrightarrow> list_all elsewhere (validateSpec_pod node fp errs)"
  by (simp add: validateSpec_pod_def Let_def elsewhere_validateOS_pod elsewhere_validateContainers_pod
        split: option.split)

lemma elsewhere_pod_kind:
  "list_all elsewhere errs \<Longrightarrow> list_all elsewhere (pod_kind pod fp errs)"
  by (simp add: pod_kind_def Let_def)

lemma elsewhere_pod_metadata:
  "list_all elsewhere errs \<Longrightarrow> list_all elsewhere (pod_metadata pod fp errs)"
  by (simp add: pod_metadata_def elsewhere_validateMetadata_pod split: option.split)

lemma elsewhere_pod_spec:
  "list_all elsewhere errs \<Longrightarrow> list_all elsewhere (pod_spec pod fp errs)"
  by (simp add: pod_spec_def elsewhere_validateSpec_pod split: option.split)

lemma filter_elsewhere: "list_all elsewhere errs \<Longrightarrow> filter about_apiVersion errs = []"
  by (simp add: elsewhere_def list_all_iff filter_empty_conv)

text \<open>
  Among the diagnostics of the program of \<open>validatePod\<close> for a root mapping without the
  key \<open>apiVersion\<close>, exactly one is about that field: \<open>apiVersion is required\<close> on line 0.
\<close>

lemma validatePod_exactly_one_apiVersion_diagnostic:
  assumes "Kind root = DocumentNode" and "Content root = doc # others" and "Kind doc = MappingNode"
    and "last_occurrence ''apiVersion'' (Content doc) = None"
  shows "filter about_apiVersion (main_errors filePath root) =
           [\<lparr>File = filePath, LineNo = 0, Message = ''apiVersion is required''\<rparr>]"
proof -
  let ?pod = "parseMapping doc"
  have "parseMapping doc ''apiVersion'' = None"
    using assms by (simp add: parseMapping_def parseMapping_loop_lookup)
  then have a: "pod_apiVersion ?pod filePath [] =
               [\<lparr>File = filePath, LineNo = 0, Message = ''apiVersion is required''\<rparr>]"
    by (simp add: pod_apiVersion_def hasField_def)
  have k: "filter about_apiVersion (pod_kind ?pod filePath []) = []"
    by (rule filter_elsewhere) (simp add: elsewhere_pod_kind)
  have m: "filter about_apiVersion (pod_metadata ?pod filePath []) = []"
    by (rule filter_elsewhere) (simp add: elsewhere_pod_metadata)
  have s: "filter about_apiVersion (pod_spec ?pod filePath []) = []"
    by (rule filter_elsewhere) (simp add: elsewhere_pod_spec)
  show ?thesis
    by (simp add: validatePod_blocks [OF assms(1-3)] a k m s about_apiVersion_def)
qed

text \<open>
  C1. A manifest whose root mapping has no key \<open>apiVersion\<close> is to yield exactly one
  diagnostic about that field, \<open>apiVersion is required\<close> on line 0. The program of
  \<open>validatePod\<close> does so (lemma \<open>validatePod_exactly_one_apiVersion_diagnostic\<close>). The
  validator of \<open>part_000\<close> does not: \<open>validateDocument\<close> only dispatches on the keys that
  are present, so for the manifest that consists of the line \<open>kind: Pod\<close> the run ends
  with an empty list of diagnostics.
\<close>

theorem validateDocument_without_apiVersion_silent:
  "validateYAML ''pod.yaml''
     (Node DocumentNode [] 1
        [Node MappingNode [] 1 [Node ScalarNode ''kind'' 1 [], Node ScalarNode ''Pod'' 1 []]])
   = Some \<lparr>filename = ''pod.yaml'', errors = []\<rparr>"
  by (simp add: validateYAML_def Validate_def validateDocument_def validateKind_def NewValidator_def)

section \<open>A root that is not a mapping\<close>

lemma validateDocument_not_mapping:
  "Kind doc \<noteq> MappingNode \<Longrightarrow>
     validateDocument doc v = Some (Errorf (Line doc) ''root must be mapping'' v)"
  by (simp add: validateDocument_def)



lemma validateTopLevel_not_mapping:
  assumes "Content root = doc # others" and "Kind doc \<noteq> MappingNode"
  shows "validateTopLevel root v = Some (Errorf (Line doc) ''root must be mapping'' v)"
  using assms by (simp add: validateTopLevel_def)

lemma validatePod_not_mapping:
  assumes "Content root = doc # others" and "Kind doc \<noteq> MappingNode"
  shows "validatePod root filePath errs = errs"
  using assms by (simp add: validatePod_def)

text \<open>
  \<open>validatePod\<close> guards every kind check with a silent return: for the manifest that
  consists of the scalar \<open>hello\<close> its list of diagnostics stays empty.
\<close>

lemma validatePod_scalar_root_silent:
  "main_errors ''pod.yaml'' (Node DocumentNode [] 1 [Node ScalarNode ''hello'' 1 []]) = []"
  by (simp add: main_errors_def validatePod_def)



section \<open>The order of the diagnostics of one container\<close>

text \<open>
  The validator of \<open>part_000\<close> follows the rule of the specification: \<open>validateContainer\<close>
  validates \<open>ports\<close> and the two probes where they stand in the mapping and then checks
  name, image and resources, in this order, on the last value written for each key
  (lemma \<open>validateContainer_rule\<close>). The validator that collects the fields first checks
  all six keys in one fixed order (lemma \<open>validateContainers_top_body_fixed_order\<close>).
\<close>

lemma validateContainer_reports_ports_first:
  "map_option errors
     (validateContainers
        (Node SequenceNode [] 1
           [Node MappingNode [] 2 [Node ScalarNode ''ports'' 2 [], Node ScalarNode ''x'' 2 []]])
        (NewValidator ''pod.yaml''))
   = Some [''pod.yaml:2 ports must be sequence'',
           ''pod.yaml container name is required'',
           ''pod.yaml container image is required'',
           ''pod.yaml container resources is required'']"
  by (simp add: validateContainers_def validateContainer_def validateContainer_checks_def
        validatePorts_def NewValidator_def Errorf_def itoa_def digits10.simps digit_char_def)

text \<open>
  The validator that collects the fields first reports, for the same container, the
  diagnostic of \<open>ports\<close> after the three required-field diagnostics.
\<close>

lemma validateContainers_top_reports_ports_last:
  "map_option errors
     (validateContainers_top
        (Node SequenceNode [] 1
           [Node MappingNode [] 2 [Node ScalarNode ''ports'' 2 [], Node ScalarNode ''x'' 2 []]])
        (NewValidator ''pod.yaml''))
   = Some [''pod.yaml container name is required'',
           ''pod.yaml container image is required'',
           ''pod.yaml container resources is required'',
           ''pod.yaml:2 ports must be sequence'']"
  by (simp add: validateContainers_top_def validateContainers_top_body_def validatePorts_top_def
        NewValidator_def Errorf_def itoa_def digits10.simps digit_char_def)

text \<open>
  C3. For every container mapping, \<open>validateContainer\<close> emits the diagnostics of \<open>ports\<close>,
  \<open>readinessProbe\<close> and \<open>livenessProbe\<close> during the scan of the fields, in the order in
  which these keys stand in the mapping, and only after the whole scan those of the name,
  the image and the resources, in this fixed order, each on the last value written for its
  key or as a missing required field, wherever these keys stand: \<open>validateContainer\<close> is
  the container rule written out in \<open>container_rule\<close>, \<open>inline_checks\<close> and
  \<open>checks_after_scan\<close>.
\<close>

theorem validateContainer_encounter_then_fixed_order:
  "validateContainer node names v =
     (case inline_checks (Content node) v of
        None \<Rightarrow> None
      | Some v0 \<Rightarrow>
          (case name_check (last_occurrence ''name'' (Content node)) names v0 of
             (v1, names1) \<Rightarrow>
               (case resources_check (last_occurrence ''resources'' (Content node))
                       (image_check (last_occurrence ''image'' (Content node)) v1) of
                  None \<Rightarrow> None
                | Some v3 \<Rightarrow> Some (v3, names1))))
   \<and> validateContainer node names v = container_rule node names v"
  unfolding validateContainer_rule container_rule_def checks_after_scan_def by simp

theorem validateContainer_encounter_then_fixed_order_witness:
  "map_option (\<lambda>r. errors (fst r))
     (validateContainer
        (Node MappingNode [] 2
           [Node ScalarNode ''name'' 2 [], Node MappingNode [] 2 [],
            Node ScalarNode ''livenessProbe'' 3 [], Node ScalarNode ''y'' 3 [],
            Node ScalarNode ''ports'' 4 [], Node ScalarNode ''x'' 4 []])
        Map.empty (NewValidator ''pod.yaml''))
   = Some [''pod.yaml:3 probe must be mapping'',
           ''pod.yaml:4 ports must be sequence'',
           ''pod.yaml:2 container name must be string'',
           ''pod.yaml container image is required'',
           ''pod.yaml container resources is required'']"
  using validateContainer_encounter_then_fixed_order
      [of "Node MappingNode [] 2
           [Node ScalarNode ''name'' 2 [], Node MappingNode [] 2 [],
            Node ScalarNode ''livenessProbe'' 3 [], Node ScalarNode ''y'' 3 [],
            Node ScalarNode ''ports'' 4 [], Node ScalarNode ''x'' 4 []]"
          Map.empty "NewValidator ''pod.yaml''"]
  by (simp add: name_check_def image_check_def resources_check_def
        validatePorts_def validateProbe_def validateContainerName_def
        NewValidator_def Errorf_def itoa_def digits10.simps digit_char_def)

section \<open>Two containers with the same name\<close>

text \<open>
  An example for the validator of \<open>part_000\<close>: two containers named \<open>web\<close> that have no
  other field.
\<close>

lemma two_containers_named_web_example:
  "map_option errors
     (validateContainers
        (Node SequenceNode [] 4
           [Node MappingNode [] 4 [Node ScalarNode ''name'' 4 [], Node ScalarNode ''web'' 4 []],
            Node MappingNode [] 5 [Node ScalarNode ''name'' 5 [], Node ScalarNode ''web'' 5 []]])
        (NewValidator ''pod.yaml''))
   = Some [''pod.yaml container image is required'',
           ''pod.yaml container resources is required'',
           diagnostic ''pod.yaml'' 5 (not_unique_message ''web''),
           ''pod.yaml container image is required'',
           ''pod.yaml container resources is required'']"
  by (simp add: validateContainers_def validateContainer_def validateContainer_checks_def
        validateContainerName_def match_web seen_def NewValidator_def Errorf_eq
        not_unique_message_def diagnostic_def)

text \<open>
  The program of \<open>validatePod\<close> words its diagnostics with the path of the field in
  front: it reports the second of two containers named \<open>web\<close> once as well, for the line
  of the second name, as \<open>containers.name must be unique, 'web' is duplicated\<close>.
\<close>

lemma validateContainers_pod_duplicate_message:
  "validateContainers_pod
     (Node SequenceNode [] 4
        [Node MappingNode [] 4
           [Node ScalarNode ''name'' 4 [], Node ScalarNode ''web'' 4 [],
            Node ScalarNode ''image'' 5 [], Node ScalarNode ''registry.bigbrother.io/app:v1'' 5 [],
            Node ScalarNode ''resources'' 6 [], Node MappingNode [] 6 []],
         Node MappingNode [] 7
           [Node ScalarNode ''name'' 7 [], Node ScalarNode ''web'' 7 [],
            Node ScalarNode ''image'' 8 [], Node ScalarNode ''registry.bigbrother.io/app:v1'' 8 [],
            Node ScalarNode ''resources'' 9 [], Node MappingNode [] 9 []]])
     ''pod.yaml'' []
   = [\<lparr>File = ''pod.yaml'', LineNo = 7,
       Message = ''containers.name must be unique, '' @ quoted ''web'' @ '' is duplicated''\<rparr>]"
  by (simp add: validateContainers_pod_def validateContainers_pod_body_def container_name_pod_def
        container_image_pod_def container_ports_pod_def container_probes_pod_def
        container_resources_pod_def validateImage_pod_def validateResources_pod_def
        parseMapping_def hasField_def getStringValue_def getFieldLine_def seen_def
        isValidSnakeCase_def MatchString_def Plus_def in_class_def HasPrefix_def Contains_def
        Let_def)

text \<open>
  C4. For a sequence of exactly two container mappings that both carry the name \<open>web\<close>,
  \<open>validateContainers\<close> produces exactly one diagnostic that reports a repeated name:
  \<open>container name 'web' is not unique\<close>, for the line of the name of the second
  container. Among the diagnostics of the first container there is none of this kind; the
  one diagnostic is among those of the second container.
\<close>

theorem two_containers_named_web:
  assumes seq: "Kind node = SequenceNode" "Content node = [c1, c2]"
    and maps: "Kind c1 = MappingNode" "Kind c2 = MappingNode"
    and n1: "last_occurrence ''name'' (Content c1) = Some n1" "Kind n1 = ScalarNode" "Value n1 = ''web''"
    and n2: "last_occurrence ''name'' (Content c2) = Some n2" "Kind n2 = ScalarNode" "Value n2 = ''web''"
    and run: "validateContainers node v = Some w"
  shows "\<exists>v1 names1. validateContainer c1 Map.empty v = Some (v1, names1)
           \<and> filter uniqueness_error (appended v v1) = []
           \<and> filter uniqueness_error (appended v1 w) =
               [diagnostic (filename v) (Line n2) (not_unique_message ''web'')]
           \<and> filter uniqueness_error (appended v w) =
               [diagnostic (filename v) (Line n2) (not_unique_message ''web'')]"
proof -
  from run seq maps obtain v1 names1 where
    r1: "container_rule c1 Map.empty v = Some (v1, names1)" and
    r2: "container_rule c2 names1 v1 = Some (w, snd (the (container_rule c2 names1 v1)))"
    by (auto simp add: validateContainers_def validateContainer_rule split: option.splits)
  have e: "\<not> seen Map.empty ''web''" by (simp add: seen_def)
  from container_rule_web [OF n1 r1] e
  have s1: "seen names1 ''web''" and a1: "adds (\<lambda>e. True) v v1"
    and u1: "filter uniqueness_error (appended v v1) = []"
    by simp_all
  from a1 have f1: "filename v1 = filename v" by (simp add: adds_def)
  from container_rule_web [OF n2 r2] s1 f1
  have a2: "adds (\<lambda>e. True) v1 w"
    and u2: "filter uniqueness_error (appended v1 w) =
               [diagnostic (filename v) (Line n2) (not_unique_message ''web'')]"
    by simp_all
  have "appended v w = appended v v1 @ appended v1 w"
    using a1 a2 by (rule appended_trans)
  with u1 u2 have "filter uniqueness_error (appended v w) =
               [diagnostic (filename v) (Line n2) (not_unique_message ''web'')]"
    by simp
  with r1 u1 u2 show ?thesis by (simp add: validateContainer_rule)
qed

theorem two_containers_named_web_witness:
  "validateContainers
     (Node SequenceNode [] 4
        [Node MappingNode [] 4 [Node ScalarNode ''name'' 4 [], Node ScalarNode ''web'' 4 []],
         Node MappingNode [] 5 [Node ScalarNode ''name'' 5 [], Node ScalarNode ''web'' 5 []]])
     (NewValidator ''pod.yaml'')
   = Some \<lparr>filename = ''pod.yaml'',
            errors = [''pod.yaml container image is required'',
                      ''pod.yaml container resources is required'',
                      diagnostic ''pod.yaml'' 5 (not_unique_message ''web''),
                      ''pod.yaml container image is required'',
                      ''pod.yaml container resources is required'']\<rparr>
   \<and> filter uniqueness_error
         (appended (NewValidator ''pod.yaml'')
            \<lparr>filename = ''pod.yaml'',
             errors = [''pod.yaml container image is required'',
                       ''pod.yaml container resources is required'',
                       diagnostic ''pod.yaml'' 5 (not_unique_message ''web''),
                       ''pod.yaml container image is required'',
                       ''pod.yaml container resources is required'']\<rparr>)
       = [diagnostic ''pod.yaml'' 5 (not_unique_message ''web'')]"
proof -
  let ?n1 = "Node ScalarNode ''web'' 4 []"
  let ?n2 = "Node ScalarNode ''web'' 5 []"
  let ?c1 = "Node MappingNode [] 4 [Node ScalarNode ''name'' 4 [], ?n1]"
  let ?c2 = "Node MappingNode [] 5 [Node ScalarNode ''name'' 5 [], ?n2]"
  let ?node = "Node SequenceNode [] 4 [?c1, ?c2]"
  let ?v = "NewValidator ''pod.yaml''"
  let ?w = "\<lparr>filename = ''pod.yaml'',
             errors = [''pod.yaml container image is required'',
                       ''pod.yaml container resources is required'',
                       diagnostic ''pod.yaml'' 5 (not_unique_message ''web''),
                       ''pod.yaml container image is required'',
                       ''pod.yaml container resources is required'']\<rparr>"
  have run: "validateContainers ?node ?v = Some ?w"
    by (simp add: validateContainers_def validateContainer_def validateContainer_checks_def
          validateContainerName_def match_web seen_def NewValidator_def Errorf_eq
          not_unique_message_def diagnostic_def)
  have l1: "last_occurrence ''name'' (Content ?c1) = Some ?n1" by simp
  have l2: "last_occurrence ''name'' (Content ?c2) = Some ?n2" by simp
  from two_containers_named_web [of ?node ?c1 ?c2 ?n1 ?n2 ?v ?w, OF _ _ _ _ l1 _ _ l2 _ _ run]
  have "filter uniqueness_error (appended ?v ?w)
          = [diagnostic (filename ?v) (Line ?n2) (not_unique_message ''web'')]"
    by auto
  then have "filter uniqueness_error (appended ?v ?w)
          = [diagnostic ''pod.yaml'' 5 (not_unique_message ''web'')]"
    by (simp add: NewValidator_def)
  with run show ?thesis by (rule conjI)
qed

section \<open>The format of a container name\<close>

text \<open>
  \<open>isValidSnakeCase\<close> accepts every non-empty text of lowercase letters, digits and
  underscores.
\<close>

lemma isValidSnakeCase_iff:
  "isValidSnakeCase s \<longleftrightarrow>
     s \<noteq> [] \<and> list_all (\<lambda>c. is_lower c \<or> is_digit c \<or> c = CHR ''_'') s"
proof -
  have "in_class [(CHR ''a'', CHR ''z''), (CHR ''0'', CHR ''9''), (CHR ''_'', CHR ''_'')]
          = (\<lambda>c. is_lower c \<or> is_digit c \<or> c = CHR ''_'')"
    by (rule ext)
       (simp add: in_class_Cons [of _ "_ # _"] in_class_digits in_class_single is_lower_def)
  then show ?thesis
    by (auto simp add: isValidSnakeCase_def MatchString_Plus_Class)
qed

text \<open>
  \<open>validateContainerName\<close> accepts a non-empty scalar name exactly when it has the
  format of the specification, and reports \<open>container name has invalid format\<close> with the
  name otherwise.
\<close>

lemma validateContainerName_format:
  assumes "Kind node = ScalarNode" and "Value node \<noteq> []"
  shows "validateContainerName node names v =
           (if snake_case (Value node)
            then (if seen names (Value node)
                  then (Errorf (Line node) (not_unique_message (Value node)) v, names)
                  else (v, names(Value node \<mapsto> True)))
            else (Errorf (Line node) (''container name has invalid format '' @ quoted (Value node)) v,
                  names))"
  using assms
  by (simp add: validateContainerName_def snakeCaseRegex_iff not_unique_message_def)

lemma validateContainerName_rejects_digit:
  "fst (validateContainerName (Node ScalarNode ''web_1'' 4 []) Map.empty (NewValidator ''pod.yaml''))
   = \<lparr>filename = ''pod.yaml'',
       errors = [''pod.yaml:4 container name has invalid format '' @ quoted ''web_1'']\<rparr>"
  by (simp add: validateContainerName_format snake_case_def is_lower_def in_class_def
        NewValidator_def Errorf_def itoa_def digits10.simps digit_char_def)

lemma isValidSnakeCase_examples:
  "isValidSnakeCase ''web_1''" "isValidSnakeCase ''_''" "isValidSnakeCase ''a__b''"
  "\<not> snake_case ''web_1''" "\<not> snake_case ''_''" "\<not> snake_case ''a__b''"
  by (simp_all add: isValidSnakeCase_iff snake_case_def is_lower_def is_digit_def in_class_def)

text \<open>
  The format check of the program of \<open>validatePod\<close> is \<open>isValidSnakeCase\<close>, which is
  documented as admitting letters, digits and underscores: a container named \<open>web_1\<close>
  that is valid otherwise passes without a diagnostic.
\<close>

lemma validatePod_accepts_digit_in_name:
  "validateContainers_pod
     (Node SequenceNode [] 4
        [Node MappingNode [] 4
           [Node ScalarNode ''name'' 4 [], Node ScalarNode ''web_1'' 4 [],
            Node ScalarNode ''image'' 5 [], Node ScalarNode ''registry.bigbrother.io/app:v1'' 5 [],
            Node ScalarNode ''resources'' 6 [], Node MappingNode [] 6 []]])
     ''pod.yaml'' []
   = []"
  by (simp add: validateContainers_pod_def validateContainers_pod_body_def container_name_pod_def
        container_image_pod_def container_ports_pod_def container_probes_pod_def
        container_resources_pod_def validateImage_pod_def validateResources_pod_def
        parseMapping_def hasField_def getStringValue_def getFieldLine_def seen_def
        isValidSnakeCase_iff is_lower_def is_digit_def in_class_def HasPrefix_def Contains_def
        Let_def)

text \<open>
  C5. For every non-empty scalar container name, the format check of
  \<open>validateContainerName\<close> accepts the name exactly when it matches
  \<open>^[a-z]+(_[a-z]+)*$\<close>, that is, when it consists of lowercase letters and underscores
  only, with no underscore at either end and no two underscores in a row (so no digit
  either); an accepted name goes on to the uniqueness check, and for any other name the
  one diagnostic \<open>container name has invalid format '<v>'\<close> is appended for the line of
  the name.
\<close>

theorem container_name_format_check:
  assumes "Kind node = ScalarNode" and "Value node \<noteq> []"
  shows "(MatchString snakeCaseRegex (Value node) \<longleftrightarrow> snake_case (Value node))
       \<and> (Value node \<in> lang snakeCaseRegex \<longleftrightarrow> snake_case (Value node))
       \<and> validateContainerName node names v =
           (if snake_case (Value node)
            then (if seen names (Value node)
                  then (Errorf (Line node) (not_unique_message (Value node)) v, names)
                  else (v, names(Value node \<mapsto> True)))
            else (Errorf (Line node)
                    (''container name has invalid format '' @ quoted (Value node)) v,
                  names))"
proof (intro conjI)
  show m: "MatchString snakeCaseRegex (Value node) \<longleftrightarrow> snake_case (Value node)"
    by (rule snakeCaseRegex_iff)
  then show "Value node \<in> lang snakeCaseRegex \<longleftrightarrow> snake_case (Value node)"
    by (simp add: MatchString_iff)
  from assms show "validateContainerName node names v =
           (if snake_case (Value node)
            then (if seen names (Value node)
                  then (Errorf (Line node) (not_unique_message (Value node)) v, names)
                  else (v, names(Value node \<mapsto> True)))
            else (Errorf (Line node)
                    (''container name has invalid format '' @ quoted (Value node)) v,
                  names))"
    by (rule validateContainerName_format)
qed

theorem container_name_format_check_witness:
  "\<not> MatchString snakeCaseRegex ''web_1''
   \<and> errors (fst (validateContainerName (Node ScalarNode ''web_1'' 4 []) Map.empty
                    (NewValidator ''pod.yaml'')))
       = [''pod.yaml:4 container name has invalid format '' @ quoted ''web_1'']
   \<and> MatchString snakeCaseRegex ''web_app''
   \<and> errors (fst (validateContainerName (Node ScalarNode ''web_app'' 4 []) Map.empty
                    (NewValidator ''pod.yaml'')))
       = []"
  using
    container_name_format_check
      [of "Node ScalarNode ''web_1'' 4 []" Map.empty "NewValidator ''pod.yaml''"]
    container_name_format_check
      [of "Node ScalarNode ''web_app'' 4 []" Map.empty "NewValidator ''pod.yaml''"]
  by (simp add: snake_case_def is_lower_def in_class_def seen_def
        NewValidator_def Errorf_def itoa_def digits10.simps digit_char_def)

section \<open>Port numbers\<close>

text \<open>
  C6. A scalar \<open>containerPort\<close> or probe \<open>port\<close> whose text \<open>strconv.Atoi\<close> reads as the
  integer \<open>p\<close> passes the range check exactly when \<open>1 \<le> p \<le> 65535\<close>. Otherwise
  (zero, a negative number, 65536 or more) one diagnostic \<open>containerPort value out of
  range\<close>, respectively \<open>port value out of range\<close>, is appended for the line of the value.
\<close>

theorem port_range_check:
  assumes "Kind node = ScalarNode" and "Atoi (Value node) = (p, None)"
  shows "errors (validateContainerPort node v) =
           errors v @ (if 1 \<le> p \<and> p \<le> 65535 then []
                       else [diagnostic (filename v) (Line node) ''containerPort value out of range''])
       \<and> errors (validateProbePort node v) =
           errors v @ (if 1 \<le> p \<and> p \<le> 65535 then []
                       else [diagnostic (filename v) (Line node) ''port value out of range''])"
  using assms by (auto simp add: validateContainerPort_def validateProbePort_def)

theorem port_range_check_witness:
  "Kind (Node ScalarNode ''65536'' 7 []) = ScalarNode
   \<and> Atoi (Value (Node ScalarNode ''65536'' 7 [])) = (65536, None)
   \<and> errors (validateContainerPort (Node ScalarNode ''65536'' 7 []) (NewValidator ''pod.yaml'')) =
        [''pod.yaml:7 containerPort value out of range'']
   \<and> errors (validateProbePort (Node ScalarNode ''65536'' 7 []) (NewValidator ''pod.yaml'')) =
        [''pod.yaml:7 port value out of range'']"
proof -
  have a: "Atoi (Value (Node ScalarNode ''65536'' 7 [])) = (65536, None)"
    by (simp add: Atoi_def is_digit_def digit_val_def)
  have k: "Kind (Node ScalarNode ''65536'' 7 []) = ScalarNode" by simp
  show ?thesis
    using port_range_check [OF k a, of "NewValidator ''pod.yaml''"] a
    by (simp add: NewValidator_def diagnostic_def itoa_def digits10.simps digit_char_def)
qed

lemma port_endpoints_accepted:
  "errors (validateContainerPort (Node ScalarNode ''1'' 3 []) (NewValidator ''pod.yaml'')) = []"
  "errors (validateContainerPort (Node ScalarNode ''65535'' 3 []) (NewValidator ''pod.yaml'')) = []"
  "errors (validateProbePort (Node ScalarNode ''1'' 3 []) (NewValidator ''pod.yaml'')) = []"
  "errors (validateProbePort (Node ScalarNode ''65535'' 3 []) (NewValidator ''pod.yaml'')) = []"
  by (simp_all add: validateContainerPort_def validateProbePort_def NewValidator_def
        Atoi_def is_digit_def digit_val_def)

lemma port_zero_and_negative_rejected:
  "errors (validateContainerPort (Node ScalarNode ''0'' 3 []) (NewValidator ''pod.yaml'')) =
     [''pod.yaml:3 containerPort value out of range'']"
  "errors (validateProbePort (Node ScalarNode ''-1'' 3 []) (NewValidator ''pod.yaml'')) =
     [''pod.yaml:3 port value out of range'']"
  by (simp_all add: validateContainerPort_def validateProbePort_def NewValidator_def
        Atoi_def is_digit_def digit_val_def
        diagnostic_def itoa_def digits10.simps digit_char_def)

section \<open>Unknown keys\<close>

lemma unsupported_error_diagnostic:
  "unsupported_error (diagnostic f l (unsupported_message prefix key))"
proof -
  have "diagnostic f l (unsupported_message prefix key) =
          (if l > 0 then f @ '':'' @ itoa l @ '' '' @ prefix @ ''.'' @ key
           else f @ '' '' @ prefix @ ''.'' @ key) @ '' has unsupported resource type''"
    by (simp add: diagnostic_def unsupported_message_def)
  then show ?thesis
    unfolding unsupported_error_def by (simp only: ends_with_suffix)
qed

lemma not_unsupported_error:
  assumes "m \<noteq> []" and "last m \<noteq> CHR ''e''"
  shows "\<not> unsupported_error (diagnostic f l m)"
proof
  assume "unsupported_error (diagnostic f l m)"
  then have "ends_with '' has unsupported resource type'' (diagnostic f l m)"
    by (simp add: unsupported_error_def)
  from ends_with_last [OF this] have "last (diagnostic f l m) = CHR ''e''" by simp
  with assms show False by (simp add: diagnostic_last)
qed

lemma adds_supported_Errorf:
  "m \<noteq> [] \<Longrightarrow> last m \<noteq> CHR ''e'' \<Longrightarrow> adds (\<lambda>e. \<not> unsupported_error e) u v
     \<Longrightarrow> adds (\<lambda>e. \<not> unsupported_error e) u (Errorf l m v)"
  by (rule adds_Errorf) (simp_all add: not_unsupported_error)

lemma supported_validateCPU_top:
  "adds (\<lambda>e. \<not> unsupported_error e) v (validateCPU_top node prefix v)"
  by (simp add: validateCPU_top_def adds_supported_Errorf)

lemma supported_validateCPU:
  "adds (\<lambda>e. \<not> unsupported_error e) v (validateCPU node v)"
  by (simp add: validateCPU_def adds_supported_Errorf)

lemma supported_validateMemory:
  "adds (\<lambda>e. \<not> unsupported_error e) v (validateMemory node prefix v)"
  by (simp add: validateMemory_def adds_supported_Errorf quoted_def)

lemma adds_filter_empty: "adds (\<lambda>e. \<not> P e) v w \<Longrightarrow> filter P (appended v w) = []"
  by (simp add: adds_def list_all_iff filter_empty_conv)

lemma adds_weaken: "adds Q v w \<Longrightarrow> adds (\<lambda>e. True) v w"
  by (simp add: adds_def list_all_iff)

text \<open>
  In the validator that collects the fields first, every key of a resource-requirement
  set other than \<open>cpu\<close> and \<open>memory\<close> is reported, in document order, for the line of the
  key; nothing else that the loop appends is such a report.
\<close>

lemma validateResourceRequirements_top_loop_reports:
  "validateResourceRequirements_top_loop cs prefix v = Some w \<Longrightarrow>
     adds (\<lambda>e. True) v w \<and>
     filter unsupported_error (appended v w) =
       map (\<lambda>key. diagnostic (filename v) (Line key) (unsupported_message prefix (Value key)))
         (other_resource_keys cs)"
proof (induction cs arbitrary: v rule: induct_list012)
  case 1
  then show ?case by (simp add: other_resource_keys_def)
next
  case (2 x)
  then show ?case by simp
next
  case (3 key "value" rest)
  define v' where "v' =
     (if Value key = ''cpu'' then validateCPU_top value prefix v
      else if Value key = ''memory'' then validateMemory value prefix v
      else Errorf (Line key) (unsupported_message prefix (Value key)) v)"
  from "3.prems" have run: "validateResourceRequirements_top_loop rest prefix v' = Some w"
    by (auto simp add: v'_def unsupported_message_def split: if_splits)
  from "3.IH"(1) [OF run] have a': "adds (\<lambda>e. True) v' w"
    and f': "filter unsupported_error (appended v' w) =
       map (\<lambda>key. diagnostic (filename v') (Line key) (unsupported_message prefix (Value key)))
         (other_resource_keys rest)"
    by simp_all
  have a: "adds (\<lambda>e. True) v v'"
    by (simp add: v'_def adds_weaken [OF supported_validateCPU_top]
          adds_weaken [OF supported_validateMemory] adds_any_Errorf)
  then have fn: "filename v' = filename v" by (simp add: adds_def)
  have step: "filter unsupported_error (appended v v') =
      (if Value key \<noteq> ''cpu'' \<and> Value key \<noteq> ''memory''
       then [diagnostic (filename v) (Line key) (unsupported_message prefix (Value key))] else [])"
    by (simp add: v'_def adds_filter_empty [OF supported_validateCPU_top]
          adds_filter_empty [OF supported_validateMemory] appended_Errorf
          unsupported_error_diagnostic)
  have "appended v w = appended v v' @ appended v' w"
    using a a' by (rule appended_trans)
  with step f' fn have "filter unsupported_error (appended v w) =
       map (\<lambda>key. diagnostic (filename v) (Line key) (unsupported_message prefix (Value key)))
         (other_resource_keys (key # value # rest))"
    by (simp add: other_resource_keys_def)
  moreover have "adds (\<lambda>e. True) v w" using a a' by (rule adds_trans)
  ultimately show ?case by simp
qed

text \<open>The validator of \<open>part_000\<close> never appends such a report.\<close>

lemma validateResourceRequirements_loop_silent:
  "validateResourceRequirements_loop cs prefix v = Some w \<Longrightarrow>
     adds (\<lambda>e. \<not> unsupported_error e) v w"
proof (induction cs arbitrary: v rule: induct_list012)
  case (3 key "value" rest)
  define v' where "v' =
     (if Value key = ''cpu'' then validateCPU value v
      else if Value key = ''memory'' then validateMemory value prefix v
      else v)"
  from "3.prems" have run: "validateResourceRequirements_loop rest prefix v' = Some w"
    by (auto simp add: v'_def split: if_splits)
  have "adds (\<lambda>e. \<not> unsupported_error e) v v'"
    by (simp add: v'_def supported_validateCPU supported_validateMemory)
  then show ?case using "3.IH"(1) [OF run] by (rule adds_trans)
qed simp_all

text \<open>
  In the other mappings of the validator that collects the fields first, a pair whose key
  is not among the known ones does not change the outcome: the lookup of every other key
  is the same with and without the pair.
\<close>

lemma last_occurrence_append:
  "even (length pre) \<Longrightarrow>
     last_occurrence k (pre @ post) =
       (case last_occurrence k post of Some n \<Rightarrow> Some n | None \<Rightarrow> last_occurrence k pre)"
  by (induction pre rule: induct_list012) (simp_all split: option.split)

lemma last_occurrence_other_key:
  assumes "even (length pre)" and "Value key \<noteq> k"
  shows "last_occurrence k (pre @ key # value # post) = last_occurrence k (pre @ post)"
  using assms by (simp add: last_occurrence_append)

lemma validateSpec_top_ignores:
  assumes "even (length pre)" and "Value key \<noteq> ''os''" and "Value key \<noteq> ''containers''"
  shows "validateSpec_top (Node MappingNode val line (pre @ key # value # post)) v =
         validateSpec_top (Node MappingNode val line (pre @ post)) v"
  using assms unfolding validateSpec_top_def collect_fields_empty
  by (simp add: last_occurrence_other_key cong: option.case_cong)

lemma validateMetadata_top_ignores:
  assumes "even (length pre)" and "Value key \<noteq> ''name''" and "Value key \<noteq> ''namespace''"
    and "Value key \<noteq> ''labels''"
  shows "validateMetadata_top (Node MappingNode val line (pre @ key # value # post)) v =
         validateMetadata_top (Node MappingNode val line (pre @ post)) v"
  using assms unfolding validateMetadata_top_def collect_fields_empty
  by (simp add: last_occurrence_other_key cong: option.case_cong)

lemma validateResources_top_ignores:
  assumes "even (length pre)" and "Value key \<noteq> ''requests''" and "Value key \<noteq> ''limits''"
  shows "validateResources_top (Node MappingNode val line (pre @ key # value # post)) v =
         validateResources_top (Node MappingNode val line (pre @ post)) v"
  using assms unfolding validateResources_top_def collect_fields_empty
  by (simp add: last_occurrence_other_key cong: option.case_cong)

lemma validateProbe_top_ignores:
  assumes "even (length pre)" and "Value key \<noteq> ''httpGet''"
  shows "validateProbe_top (Node MappingNode val line (pre @ key # value # post)) v =
         validateProbe_top (Node MappingNode val line (pre @ post)) v"
  using assms unfolding validateProbe_top_def collect_fields_empty
  by (simp add: last_occurrence_other_key cong: option.case_cong)

lemma validateHTTPGetAction_top_ignores:
  assumes "even (length pre)" and "Value key \<noteq> ''path''" and "Value key \<noteq> ''port''"
  shows "validateHTTPGetAction_top (Node MappingNode val line (pre @ key # value # post)) v =
         validateHTTPGetAction_top (Node MappingNode val line (pre @ post)) v"
  using assms unfolding validateHTTPGetAction_top_def collect_fields_empty
  by (simp add: last_occurrence_other_key cong: option.case_cong)

lemma validateContainers_top_body_ignores:
  assumes "even (length pre)" and "Value key \<noteq> ''name''" and "Value key \<noteq> ''image''"
    and "Value key \<noteq> ''resources''" and "Value key \<noteq> ''ports''"
    and "Value key \<noteq> ''readinessProbe''" and "Value key \<noteq> ''livenessProbe''"
  shows "validateContainers_top_body (Node MappingNode val line (pre @ key # value # post)) names v =
         validateContainers_top_body (Node MappingNode val line (pre @ post)) names v"
  using assms unfolding validateContainers_top_body_fixed_order fixed_order_rule_def
  by (simp add: last_occurrence_other_key cong: option.case_cong prod.case_cong)

lemma validateTopLevel_ignores:
  assumes "even (length pre)" and "Value key \<noteq> ''apiVersion''" and "Value key \<noteq> ''kind''"
    and "Value key \<noteq> ''metadata''" and "Value key \<noteq> ''spec''"
  shows "validateTopLevel (Node DocumentNode dval dline
            [Node MappingNode val line (pre @ key # value # post)]) v =
         validateTopLevel (Node DocumentNode dval dline
            [Node MappingNode val line (pre @ post)]) v"
  using assms unfolding validateTopLevel_def collect_fields_empty
  by (simp add: last_occurrence_other_key cong: option.case_cong)

lemma unsupported_resource_type_example:
  "map_option errors
     (validateResourceRequirements_top
        (Node MappingNode [] 7 [Node ScalarNode ''gpu'' 8 [], Node ScalarNode ''1'' 8 []])
        ''limits'' (NewValidator ''pod.yaml''))
   = Some [''pod.yaml:8 limits.gpu has unsupported resource type'']"
  by (simp add: validateResourceRequirements_top_def NewValidator_def Errorf_def itoa_def
        digits10.simps digit_char_def)

text \<open>
  C7. Every key of a resource-requirement set other than \<open>cpu\<close> and \<open>memory\<close> is to be
  reported as an unsupported resource type, while unknown keys of the other mappings go
  unreported. The validator that collects the fields first does so (lemma
  \<open>validateResourceRequirements_top_loop_reports\<close> and the lemmas on ignored pairs). In
  the validator of \<open>part_000\<close> the switch of \<open>validateResourceRequirements\<close> has no
  default case: for the resource-requirement set that consists of the line \<open>gpu: 1\<close> it
  appends nothing.
\<close>

theorem validateResourceRequirements_ignores_unknown_key:
  "validateResourceRequirements
     (Node MappingNode [] 7 [Node ScalarNode ''gpu'' 8 [], Node ScalarNode ''1'' 8 []])
     ''limits'' (NewValidator ''pod.yaml'')
   = Some \<lparr>filename = ''pod.yaml'', errors = []\<rparr>"
  by (simp add: validateResourceRequirements_def NewValidator_def)

section \<open>The field accessor\<close>

text \<open>
  C8. \<open>parseMapping\<close> returns the empty lookup for a node that is not a mapping. For a
  mapping it maps every key text to the value of the last occurrence of that key, so a
  repeated key is resolved in favour of the value seen last. The function only builds the
  lookup: it has no access to the list of diagnostics, so a repeated key is not reported.
\<close>

theorem parseMapping_last_seen_wins:
  "parseMapping node k =
     (if Kind node \<noteq> MappingNode then None else last_occurrence k (Content node))"
  by (simp add: parseMapping_def parseMapping_loop_lookup split: option.splits)

theorem parseMapping_last_seen_wins_witness:
  "parseMapping (Node ScalarNode ''name'' 1 []) ''name'' = None
   \<and> parseMapping (Node MappingNode [] 1
        [Node ScalarNode ''name'' 1 [], Node ScalarNode ''a'' 1 [],
         Node ScalarNode ''name'' 2 [], Node ScalarNode ''b'' 2 []]) ''name''
      = Some (Node ScalarNode ''b'' 2 [])"
  using parseMapping_last_seen_wins [of "Node ScalarNode ''name'' 1 []" "''name''"]
    parseMapping_last_seen_wins [of "Node MappingNode [] 1
        [Node ScalarNode ''name'' 1 [], Node ScalarNode ''a'' 1 [],
         Node ScalarNode ''name'' 2 [], Node ScalarNode ''b'' 2 []]" "''name''"]
  by simp

section \<open>Repeating a run\<close>

lemma shift_NewValidator: "shift es (NewValidator fname) = \<lparr>filename = fname, errors = es\<rparr>"
  by (simp add: shift_def NewValidator_def)

text \<open>
  C9. The diagnostics of a run are a function of the tree and the file name alone: the
  source reads nothing else (no iteration over a map, no clock, no random number). What
  a run appends does not depend on what the list held before. \<open>Validate\<close> on a validator
  that already holds the list \<open>es\<close> ends with \<open>es\<close> followed by exactly the list of a
  fresh validator, and \<open>validatePod\<close> called with the package-level list \<open>errs\<close> ends
  with \<open>errs\<close> followed by exactly the list of a fresh process. Two separate runs, which both
  start from the empty list, therefore end with the same diagnostics in the same order.
\<close>

theorem validation_run_repeatable:
  "Validate root \<lparr>filename = fname, errors = es\<rparr> =
     map_option (\<lambda>w. w\<lparr>errors := es @ errors w\<rparr>) (validateYAML fname root)
   \<and> validatePod root filePath errs = errs @ main_errors filePath root"
proof
  have h: "Validate root (shift es (NewValidator fname)) =
          map_option (shift es) (Validate root (NewValidator fname))"
    by (rule shift_Validate)
  from h [unfolded shift_NewValidator]
  show "Validate root \<lparr>filename = fname, errors = es\<rparr> =
     map_option (\<lambda>w. w\<lparr>errors := es @ errors w\<rparr>) (validateYAML fname root)"
    by (simp add: validateYAML_def shift_def [abs_def])
  show "validatePod root filePath errs = errs @ main_errors filePath root"
    by (rule validatePod_appends)
qed

lemma second_call_in_one_process:
  "validatePod root filePath (main_errors filePath root) =
     main_errors filePath root @ main_errors filePath root"
  by (rule validatePod_appends)

theorem validation_run_repeatable_witness:
  "Validate (Node DocumentNode [] 1 [Node MappingNode [] 1 []])
     \<lparr>filename = ''pod.yaml'', errors = [''earlier'']\<rparr>
   = Some \<lparr>filename = ''pod.yaml'', errors = [''earlier'']\<rparr>
   \<and> validatePod (Node DocumentNode [] 1 [Node MappingNode [] 1 []]) ''pod.yaml''
       [\<lparr>File = ''other.yaml'', LineNo = 2, Message = ''earlier''\<rparr>]
     = [\<lparr>File = ''other.yaml'', LineNo = 2, Message = ''earlier''\<rparr>,
        \<lparr>File = ''pod.yaml'', LineNo = 0, Message = ''apiVersion is required''\<rparr>,
        \<lparr>File = ''pod.yaml'', LineNo = 0, Message = ''kind is required''\<rparr>,
        \<lparr>File = ''pod.yaml'', LineNo = 0, Message = ''metadata is required''\<rparr>,
        \<lparr>File = ''pod.yaml'', LineNo = 0, Message = ''spec is required''\<rparr>]"
proof -
  let ?root = "Node DocumentNode [] 1 [Node MappingNode [] 1 []]"
  have fresh: "validateYAML ''pod.yaml'' ?root = Some \<lparr>filename = ''pod.yaml'', errors = []\<rparr>"
    by (simp add: validateYAML_def Validate_def validateDocument_def NewValidator_def)
  have process: "main_errors ''pod.yaml'' ?root =
       [\<lparr>File = ''pod.yaml'', LineNo = 0, Message = ''apiVersion is required''\<rparr>,
        \<lparr>File = ''pod.yaml'', LineNo = 0, Message = ''kind is required''\<rparr>,
        \<lparr>File = ''pod.yaml'', LineNo = 0, Message = ''metadata is required''\<rparr>,
        \<lparr>File = ''pod.yaml'', LineNo = 0, Message = ''spec is required''\<rparr>]"
    by (simp add: main_errors_def validatePod_def parseMapping_def pod_apiVersion_def pod_kind_def
          pod_metadata_def pod_spec_def hasField_def)
  from validation_run_repeatable [of ?root "''pod.yaml''" "[''earlier'']" "''pod.yaml''"
      "[\<lparr>File = ''other.yaml'', LineNo = 2, Message = ''earlier''\<rparr>]"]
  show ?thesis
    unfolding fresh process by simp
qed

section \<open>The empty document\<close>

lemma Validate_empty: "Content root = [] \<Longrightarrow> Validate root v = None"
  by (simp add: Validate_def)

lemma validateTopLevel_empty:
  "Content root = [] \<Longrightarrow> validateTopLevel root v = Some (Errorf 0 ''empty document'' v)"
  by (simp add: validateTopLevel_def)

lemma validatePod_empty: "Content root = [] \<Longrightarrow> validatePod root filePath errs = errs"
  by (simp add: validatePod_def)

text \<open>
  C10. \<open>Validate\<close> is to read \<open>root.Content[0]\<close> only when the root has a child. An
  empty input file leaves the root node without children. \<open>Validate\<close> records
  \<open>empty document\<close> for it and then reads \<open>root.Content[0]\<close> without returning first:
  the read is out of range and the run ends in a panic instead of a list of diagnostics.
  The validator that collects the fields first returns after the diagnostic (lemma
  \<open>validateTopLevel_empty\<close>).
\<close>

theorem Validate_empty_document_panics:
  "Validate (Node ZeroKind [] 0 []) (NewValidator ''pod.yaml'') = None"
  by (simp add: Validate_def)

end
